theory Spec2Isabelle
  imports Main "HOL-Library.Multiset"
begin

section \<open>JavaScript strings and numbers used by the order-number generator\<close>

text \<open>
  Strings are character lists. The functions below are the ECMAScript built-ins that
  \<^verbatim>\<open>app.get('/api/orders/next-order-number')\<close> calls: \<^verbatim>\<open>String.prototype.padStart\<close>,
  \<^verbatim>\<open>slice(-n)\<close>, \<^verbatim>\<open>split\<close>, \<^verbatim>\<open>Number.prototype.toString\<close> and \<^verbatim>\<open>parseInt\<close> (no radix argument).
  Numbers are integers here; \<^verbatim>\<open>NaN\<close> is \<open>None\<close>.
\<close>

definition padStart :: "nat \<Rightarrow> char \<Rightarrow> string \<Rightarrow> string" where
  "padStart n c s = replicate (n - length s) c @ s"

definition slice_last :: "nat \<Rightarrow> string \<Rightarrow> string" where
  "slice_last n s = drop (length s - n) s"

definition digit_char :: "nat \<Rightarrow> char" where
  "digit_char d = ''0123456789'' ! d"

fun nat_to_string :: "nat \<Rightarrow> string" where
  "nat_to_string n =
     (if n < 10 then [digit_char n] else nat_to_string (n div 10) @ [digit_char (n mod 10)])"

declare nat_to_string.simps [simp del]

definition int_to_string :: "int \<Rightarrow> string" where
  "int_to_string i = (if i < 0 then CHR ''-'' # nat_to_string (nat (- i)) else nat_to_string (nat i))"

text \<open>\<^verbatim>\<open>(NaN).toString()\<close> is \<^verbatim>\<open>"NaN"\<close>.\<close>

definition number_to_string :: "int option \<Rightarrow> string" where
  "number_to_string v = (case v of None \<Rightarrow> ''NaN'' | Some i \<Rightarrow> int_to_string i)"

definition charCode :: "char \<Rightarrow> nat" where
  "charCode c = of_char c"

definition is_digit :: "char \<Rightarrow> bool" where
  "is_digit c = (48 \<le> charCode c \<and> charCode c \<le> 57)"

text \<open>
  White space, as \<^verbatim>\<open>String.prototype.trim\<close> and \<^verbatim>\<open>parseInt\<close> strip it: the ECMAScript
  \<^verbatim>\<open>WhiteSpace\<close> and \<^verbatim>\<open>LineTerminator\<close> code points (U+0009 to U+000D, U+0020, U+00A0,
  U+1680, U+2000 to U+200A, U+2028, U+2029, U+202F, U+205F, U+3000, U+FEFF). A string is
  its UTF-8 bytes, so each code point is the list of its bytes.
\<close>

definition white_space :: "string list" where
  "white_space =
     [[CHR 0x09], [CHR 0x0A], [CHR 0x0B], [CHR 0x0C], [CHR 0x0D], [CHR 0x20],
      [CHR 0xC2, CHR 0xA0], [CHR 0xE1, CHR 0x9A, CHR 0x80],
      [CHR 0xE2, CHR 0x80, CHR 0x80], [CHR 0xE2, CHR 0x80, CHR 0x81],
      [CHR 0xE2, CHR 0x80, CHR 0x82], [CHR 0xE2, CHR 0x80, CHR 0x83],
      [CHR 0xE2, CHR 0x80, CHR 0x84], [CHR 0xE2, CHR 0x80, CHR 0x85],
      [CHR 0xE2, CHR 0x80, CHR 0x86], [CHR 0xE2, CHR 0x80, CHR 0x87],
      [CHR 0xE2, CHR 0x80, CHR 0x88], [CHR 0xE2, CHR 0x80, CHR 0x89],
      [CHR 0xE2, CHR 0x80, CHR 0x8A], [CHR 0xE2, CHR 0x80, CHR 0xA8],
      [CHR 0xE2, CHR 0x80, CHR 0xA9], [CHR 0xE2, CHR 0x80, CHR 0xAF],
      [CHR 0xE2, CHR 0x81, CHR 0x9F], [CHR 0xE3, CHR 0x80, CHR 0x80],
      [CHR 0xEF, CHR 0xBB, CHR 0xBF]]"

text \<open>The number of bytes of the white-space code point a string starts or ends with; 0 when
  it starts or ends with none.\<close>

definition leading_space :: "string \<Rightarrow> nat" where
  "leading_space s =
     (case filter (\<lambda>w. take (length w) s = w) white_space of [] \<Rightarrow> 0 | w # _ \<Rightarrow> length w)"

definition trailing_space :: "string \<Rightarrow> nat" where
  "trailing_space s =
     (case filter (\<lambda>w. drop (length s - length w) s = w) white_space of
        [] \<Rightarrow> 0 | w # _ \<Rightarrow> length w)"

function trimStart :: "string \<Rightarrow> string" where
  "trimStart s = (if leading_space s = 0 then s else trimStart (drop (leading_space s) s))"
  by pat_completeness auto
termination
proof (relation "measure length")
  show "wf (measure length)" by simp
next
  fix s :: string
  assume a: "leading_space s \<noteq> 0"
  have "leading_space [] = 0" by (simp add: leading_space_def white_space_def)
  then have "s \<noteq> []" using a by auto
  then show "(drop (leading_space s) s, s) \<in> measure length" using a by simp
qed

function trimEnd :: "string \<Rightarrow> string" where
  "trimEnd s = (if trailing_space s = 0 then s else trimEnd (take (length s - trailing_space s) s))"
  by pat_completeness auto
termination
proof (relation "measure length")
  show "wf (measure length)" by simp
next
  fix s :: string
  assume a: "trailing_space s \<noteq> 0"
  have "trailing_space [] = 0" by (simp add: trailing_space_def white_space_def)
  then have "s \<noteq> []" using a by auto
  then show "(take (length s - trailing_space s) s, s) \<in> measure length" using a by simp
qed

declare trimStart.simps [simp del]

declare trimEnd.simps [simp del]

definition trim :: "string \<Rightarrow> string" where
  "trim s = trimEnd (trimStart s)"

definition hex_val :: "char \<Rightarrow> nat option" where
  "hex_val c =
     (if 48 \<le> charCode c \<and> charCode c \<le> 57 then Some (charCode c - 48)
      else if 97 \<le> charCode c \<and> charCode c \<le> 102 then Some (charCode c - 87)
      else if 65 \<le> charCode c \<and> charCode c \<le> 70 then Some (charCode c - 55)
      else None)"

definition digit_val :: "nat \<Rightarrow> char \<Rightarrow> nat option" where
  "digit_val radix c = (case hex_val c of Some d \<Rightarrow> (if d < radix then Some d else None) | None \<Rightarrow> None)"

definition digits_value :: "nat \<Rightarrow> string \<Rightarrow> nat" where
  "digits_value radix s = foldl (\<lambda>a c. radix * a + the (digit_val radix c)) 0 s"

text \<open>
  \<^verbatim>\<open>parseInt(s)\<close>: leading white space is skipped, a sign is read, a \<^verbatim>\<open>0x\<close>/\<^verbatim>\<open>0X\<close> prefix
  selects radix 16, and the longest prefix of digits of the radix is the value; with no
  digit the result is \<^verbatim>\<open>NaN\<close>.
\<close>

definition parseInt :: "string \<Rightarrow> int option" where
  "parseInt s =
     (let t = trimStart s;
          neg = (take 1 t = ''-'');
          u = (if take 1 t = ''-'' \<or> take 1 t = ''+'' then drop 1 t else t);
          hex = (take 2 u = ''0x'' \<or> take 2 u = ''0X'');
          radix = (if hex then 16 else 10);
          v = (if hex then drop 2 u else u);
          ds = takeWhile (\<lambda>c. digit_val radix c \<noteq> None) v
      in if ds = [] then None
         else Some (if neg then - int (digits_value radix ds) else int (digits_value radix ds)))"

fun split_on :: "char \<Rightarrow> string \<Rightarrow> string list" where
  "split_on c [] = [[]]"
| "split_on c (x # xs) =
     (if x = c then [] # split_on c xs
      else (case split_on c xs of p # ps \<Rightarrow> (x # p) # ps | [] \<Rightarrow> [[x]]))"

text \<open>An array element in a template literal; a missing element prints as \<^verbatim>\<open>undefined\<close>.\<close>

definition part :: "string list \<Rightarrow> nat \<Rightarrow> string" where
  "part ps i = (if i < length ps then ps ! i else ''undefined'')"

section \<open>The order-number generator\<close>

text \<open>
  The clock, as \<^verbatim>\<open>new Date()\<close> is read: \<^verbatim>\<open>getDate()\<close>, \<^verbatim>\<open>getMonth()\<close> (from 0) and
  \<^verbatim>\<open>getFullYear()\<close>.
\<close>

record date =
  getDate :: nat
  getMonth :: nat
  getFullYear :: nat

definition day :: "date \<Rightarrow> string" where
  "day today = padStart 2 CHR ''0'' (nat_to_string (getDate today))"

definition month :: "date \<Rightarrow> string" where
  "month today = padStart 2 CHR ''0'' (nat_to_string (getMonth today + 1))"

definition year :: "date \<Rightarrow> string" where
  "year today = slice_last 2 (nat_to_string (getFullYear today))"

definition currentDate :: "date \<Rightarrow> string" where
  "currentDate today = day today @ ''-'' @ month today @ ''-'' @ year today"

text \<open>
  The value of \<^verbatim>\<open>orderNumber\<close> in the reply of
  \<^verbatim>\<open>app.get('/api/orders/next-order-number')\<close>, as the handler computes it from the clock
  and from \<open>latestOrder\<close>: the \<^verbatim>\<open>order_no\<close> of the order the query found, or \<open>None\<close> when
  it found none.
\<close>

definition nextSequence :: "string option \<Rightarrow> date \<Rightarrow> string" where
  "nextSequence latestOrder today =
     (case latestOrder of
        None \<Rightarrow> ''0001''
      | Some order_no \<Rightarrow>
          if order_no = [] then ''0001''
          else
            (let parts = split_on CHR ''-'' order_no;
                 lastDate = part parts 1 @ ''-'' @ part parts 2 @ ''-'' @ part parts 3
             in if lastDate = currentDate today
                then padStart 4 CHR ''0''
                       (number_to_string (map_option (\<lambda>lastSequence. lastSequence + 1)
                          (parseInt (part parts 4))))
                else ''0001''))"

definition orderNumber :: "string option \<Rightarrow> date \<Rightarrow> string" where
  "orderNumber latestOrder today =
     ''SQ-'' @ day today @ ''-'' @ month today @ ''-'' @ year today @ ''-'' @
       nextSequence latestOrder today"

text \<open>
  The handler. Its \<^verbatim>\<open>try\<close> block starts with \<^verbatim>\<open>await Order.findOne(...).sort(...)\<close>;
  whatever the block throws is caught and answered with status 500 and the error's
  message. The first parameter is what the name \<^verbatim>\<open>Order\<close> stands for in the module:
  \<open>None\<close> when the module declares no such name, so that evaluating it throws a
  \<^verbatim>\<open>ReferenceError\<close>; otherwise the outcome of the query, which is the message of the
  error it rejects with, or the latest order it resolves to.
\<close>

datatype order_number_reply = OrderNumber string | InternalError string

definition next_order_number ::
  "(string + string option) option \<Rightarrow> date \<Rightarrow> order_number_reply" where
  "next_order_number Order today =
     (case Order of
        None \<Rightarrow> InternalError ''Order is not defined''
      | Some (Inl message) \<Rightarrow> InternalError message
      | Some (Inr latestOrder) \<Rightarrow> OrderNumber (orderNumber latestOrder today))"

text \<open>
  \<^verbatim>\<open>firebase-connector.js\<close> imports \<^verbatim>\<open>express\<close>, \<^verbatim>\<open>pg\<close>, \<^verbatim>\<open>cors\<close>, \<^verbatim>\<open>firebase-admin\<close> and the
  service account key, and declares \<^verbatim>\<open>app\<close>, \<^verbatim>\<open>corsOptions\<close>, \<^verbatim>\<open>pool\<close>, \<^verbatim>\<open>verifyToken\<close> and
  \<^verbatim>\<open>PORT\<close> at top level. Neither it nor the second source file declares or imports
  \<^verbatim>\<open>Order\<close>, and the handler has no local of that name.
\<close>

definition module_Order :: "(string + string option) option" where
  "module_Order = None"

section \<open>JSON values, line descriptors and the orders table\<close>

text \<open>
  A JSON value of a request body or of a table cell. Numbers are integers; a key that an
  object does not have reads \<^verbatim>\<open>undefined\<close>, which is \<open>None\<close>.
\<close>

datatype jsval = JNull | JBool bool | JNum int | JStr string

type_synonym jsobj = "string \<rightharpoonup> jsval"

fun truthy :: "jsval option \<Rightarrow> bool" where
  "truthy None = False"
| "truthy (Some JNull) = False"
| "truthy (Some (JBool b)) = b"
| "truthy (Some (JNum n)) = (n \<noteq> 0)"
| "truthy (Some (JStr s)) = (s \<noteq> [])"

text \<open>\<^verbatim>\<open>v || d\<close>\<close>

definition or_else :: "jsval option \<Rightarrow> jsval \<Rightarrow> jsval" where
  "or_else v d = (case v of None \<Rightarrow> d | Some x \<Rightarrow> if truthy v then x else d)"

text \<open>
  An incoming line descriptor: the key \<^verbatim>\<open>id\<close>, the key \<^verbatim>\<open>_deleted\<close>, and the object's
  other keys (\<^verbatim>\<open>const { id, _deleted, ...fields } = update\<close>). The id is an integer, as
  the column is; \<open>None\<close> is an id that is absent or \<^verbatim>\<open>null\<close>. Ids of other JSON types and
  values that are arrays or objects are outside this model.
\<close>

record descriptor =
  item_id :: "int option"
  item_deleted :: "jsval option"
  item_fields :: jsobj

text \<open>\<^verbatim>\<open>item.id\<close> as a condition, \<^verbatim>\<open>item._deleted\<close> as a condition, and \<^verbatim>\<open>item.id || 0\<close>.\<close>

definition has_id :: "descriptor \<Rightarrow> bool" where
  "has_id item = truthy (map_option JNum (item_id item))"

definition is_deleted :: "descriptor \<Rightarrow> bool" where
  "is_deleted item = truthy (item_deleted item)"

definition id_or_zero :: "descriptor \<Rightarrow> int" where
  "id_or_zero item = (case item_id item of None \<Rightarrow> 0 | Some i \<Rightarrow> i)"

text \<open>
  A row of the table \<^verbatim>\<open>orders\<close> maps column names to values, \<^verbatim>\<open>id\<close> and \<^verbatim>\<open>order_no\<close>
  included. The store holds the rows, the sequence that assigns the next \<^verbatim>\<open>id\<close>, and
  the number of transactions that have been begun on it.
\<close>

type_synonym row = jsobj

record db =
  rows :: "row list"
  seq :: int
  transactions :: nat

text \<open>\<^verbatim>\<open>WHERE id = $1\<close>, \<^verbatim>\<open>WHERE order_no = $1\<close> and \<^verbatim>\<open>WHERE id = ANY($1::int[])\<close>.\<close>

definition row_has_id :: "int \<Rightarrow> row \<Rightarrow> bool" where
  "row_has_id i r = (r ''id'' = Some (JNum i))"

definition has_order_no :: "string \<Rightarrow> row \<Rightarrow> bool" where
  "has_order_no order_no r = (r ''order_no'' = Some (JStr order_no))"

definition id_in :: "int list \<Rightarrow> row \<Rightarrow> bool" where
  "id_in ids r = (case r ''id'' of Some (JNum i) \<Rightarrow> i \<in> set ids | _ \<Rightarrow> False)"

text \<open>The key of \<^verbatim>\<open>ORDER BY id\<close>.\<close>

definition order_by_id :: "row \<Rightarrow> int" where
  "order_by_id r = (case r ''id'' of Some (JNum i) \<Rightarrow> i | _ \<Rightarrow> 0)"

text \<open>
  The table's column types and constraints are not in the repository. They are the
  parameter \<open>accepts\<close>: the store raises an error on a statement that writes a value
  \<open>v\<close> to a column \<open>k\<close> with \<open>\<not> accepts k v\<close>. An \<^verbatim>\<open>INSERT\<close> or \<^verbatim>\<open>UPDATE\<close> checks
  the values of the keys it writes.
\<close>

definition accepted :: "(string \<Rightarrow> jsval \<Rightarrow> bool) \<Rightarrow> string list \<Rightarrow> jsobj \<Rightarrow> bool" where
  "accepted accepts keys obj =
     list_all (\<lambda>k. case obj k of None \<Rightarrow> True | Some v \<Rightarrow> accepts k v) keys"

text \<open>
  What the handler throws inside the transaction, by the place of the \<^verbatim>\<open>throw\<close>: the order
  does not exist and nothing is inserted; ids to delete that are not of the order; an id to
  update that no row has, or whose row is of another order; an update that changed no row;
  an insert that failed (with its index); an error of the store in another statement.
\<close>

datatype error =
    OrderMissing
  | CannotDelete "int list"
  | ItemMissing int
  | ItemForeign int "jsval option"
  | NoRecord int
  | InsertFailed nat
  | StoreError

text \<open>
  The body of the success reply: \<^verbatim>\<open>data\<close>, the four counts of \<^verbatim>\<open>operations\<close>, and the
  fields of \<^verbatim>\<open>order_details\<close> that come from the header (the message and the order number
  repeat the request's \<^verbatim>\<open>order_no\<close>). The reply is a validation error (400) with its
  text, a failure (500) with what was thrown, or a success.
\<close>

record response =
  data :: "row list"
  inserted :: nat
  updated :: nat
  deleted :: nat
  total :: nat
  customer_name :: "jsval option"
  total_amount :: "jsval option"
  status :: "jsval option"

datatype reply = BadRequest string | Failed error | Succeeded response

section \<open>The order-line differ\<close>

definition allItems :: "descriptor list \<Rightarrow> descriptor list" where
  "allItems body = sort_key id_or_zero body"

definition itemsToInsert :: "descriptor list \<Rightarrow> descriptor list" where
  "itemsToInsert items = filter (\<lambda>item. \<not> has_id item \<and> \<not> is_deleted item) items"

definition itemsToUpdate :: "descriptor list \<Rightarrow> descriptor list" where
  "itemsToUpdate items = filter (\<lambda>item. has_id item \<and> \<not> is_deleted item) items"

definition itemsToDelete :: "descriptor list \<Rightarrow> descriptor list" where
  "itemsToDelete items = filter (\<lambda>item. is_deleted item \<and> has_id item) items"

section \<open>The header reconciler\<close>

definition commonFields :: "string list" where
  "commonFields =
     [''voucher_type'', ''order_date'', ''customer_code'', ''customer_name'',
      ''executive'', ''role'', ''status'', ''total_quantity'', ''total_amount'',
      ''total_amount_without_tax'', ''total_sgst_amount'', ''total_cgst_amount'',
      ''total_igst_amount'', ''remarks'']"

text \<open>\<open>today\<close> is \<^verbatim>\<open>new Date().toISOString().split('T')[0]\<close>.\<close>

definition defaultOrderDetails :: "string \<Rightarrow> jsobj" where
  "defaultOrderDetails today =
     [''voucher_type'' \<mapsto> JStr ''Sales Order'',
      ''order_date'' \<mapsto> JStr today,
      ''customer_code'' \<mapsto> JStr '''',
      ''customer_name'' \<mapsto> JStr '''',
      ''executive'' \<mapsto> JStr '''',
      ''role'' \<mapsto> JStr '''',
      ''status'' \<mapsto> JStr ''pending'',
      ''total_quantity'' \<mapsto> JNum 0,
      ''total_amount'' \<mapsto> JNum 0,
      ''total_amount_without_tax'' \<mapsto> JNum 0,
      ''total_sgst_amount'' \<mapsto> JNum 0,
      ''total_cgst_amount'' \<mapsto> JNum 0,
      ''total_igst_amount'' \<mapsto> JNum 0,
      ''remarks'' \<mapsto> JStr '''']"

definition priorityItem :: "descriptor list \<Rightarrow> descriptor option" where
  "priorityItem validItems =
     (case find has_id validItems of
        Some item \<Rightarrow> Some item
      | None \<Rightarrow> (case validItems of [] \<Rightarrow> None | item # _ \<Rightarrow> Some item))"

definition commonOrderDetails :: "string \<Rightarrow> descriptor list \<Rightarrow> jsobj" where
  "commonOrderDetails today items =
     (let validItems = filter (\<lambda>item. \<not> is_deleted item) items
      in case priorityItem validItems of
           None \<Rightarrow> defaultOrderDetails today
         | Some item \<Rightarrow>
             foldl (\<lambda>details field.
                      case item_fields item field of
                        None \<Rightarrow> details
                      | Some v \<Rightarrow> details(field \<mapsto> v))
                   (defaultOrderDetails today) commonFields)"

section \<open>The phases of the reconciliation transaction\<close>

text \<open>
  Each phase maps the rows the transaction sees to an error (if the phase throws) and
  the rows it leaves behind. A phase that throws may already have written: its rows are
  returned as they are at the \<^verbatim>\<open>throw\<close>.
\<close>

subsection \<open>Deletions\<close>

definition delete_phase ::
  "string \<Rightarrow> bool \<Rightarrow> descriptor list \<Rightarrow> row list \<Rightarrow> error option \<times> row list" where
  "delete_phase order_no orderExists toDelete rs =
     (if toDelete = [] then (None, rs)
      else
        (let deleteIds = map id_or_zero toDelete;
             verifyResult = filter (\<lambda>r. id_in deleteIds r \<and> has_order_no order_no r) rs;
             foundIds = map order_by_id verifyResult;
             missingIds = filter (\<lambda>i. i \<notin> set foundIds) deleteIds
         in if orderExists \<and> length verifyResult \<noteq> length deleteIds
            then (Some (CannotDelete missingIds), rs)
            else (None, filter (\<lambda>r. \<not> (id_in deleteIds r \<and> has_order_no order_no r)) rs)))"

subsection \<open>Updates\<close>

definition allowedFields :: "string list" where
  "allowedFields =
     [''status'', ''disc_percentage'', ''disc_amount'', ''spl_disc_percentage'',
      ''spl_disc_amount'', ''net_rate'', ''gross_amount'', ''total_quantity'',
      ''total_amount'', ''total_amount_without_tax'', ''remarks'', ''quantity'',
      ''delivery_date'', ''delivery_mode'', ''transporter_name'',
      ''total_sgst_amount'', ''total_cgst_amount'', ''total_igst_amount'',
      ''sgst'', ''cgst'', ''igst'', ''gst'', ''hsn'', ''rate'', ''amount'', ''uom'',
      ''item_code'', ''item_name'', ''order_date'']"

definition filteredFields :: "jsobj \<Rightarrow> jsobj" where
  "filteredFields flds = flds |` set allowedFields"

text \<open>\<^verbatim>\<open>Object.keys(filteredFields).length === 0\<close>\<close>

definition no_valid_fields :: "jsobj \<Rightarrow> bool" where
  "no_valid_fields flds = list_all (\<lambda>key. flds key = None) allowedFields"

text \<open>The ownership check of one update descriptor (made when the order exists).\<close>

definition itemCheck :: "string \<Rightarrow> int \<Rightarrow> row list \<Rightarrow> error option" where
  "itemCheck order_no i rs =
     (case filter (row_has_id i) rs of
        [] \<Rightarrow> Some (ItemMissing i)
      | r # _ \<Rightarrow>
          if r ''order_no'' \<noteq> Some (JStr order_no) then Some (ItemForeign i (r ''order_no''))
          else None)"

text \<open>\<^verbatim>\<open>UPDATE orders SET ... WHERE id = $n AND order_no = $m\<close> on one row.\<close>

definition update_row :: "string \<Rightarrow> int \<Rightarrow> jsobj \<Rightarrow> row \<Rightarrow> row" where
  "update_row order_no i flds r =
     (if row_has_id i r \<and> has_order_no order_no r then r ++ filteredFields flds else r)"

definition update_item ::
  "(string \<Rightarrow> jsval \<Rightarrow> bool) \<Rightarrow> string \<Rightarrow> bool \<Rightarrow> descriptor \<Rightarrow> row list
     \<Rightarrow> error option \<times> row list" where
  "update_item accepts order_no orderExists update rs =
     (let i = id_or_zero update; flds = item_fields update;
          check = (if orderExists then itemCheck order_no i rs else None)
      in if check \<noteq> None then (check, rs)
         else if no_valid_fields flds then (None, rs)
         else if \<not> accepted accepts allowedFields flds then (Some StoreError, rs)
         else if filter (\<lambda>r. row_has_id i r \<and> has_order_no order_no r) rs = []
           then (Some (NoRecord i), rs)
         else (None, map (update_row order_no i flds) rs))"

fun update_phase ::
  "(string \<Rightarrow> jsval \<Rightarrow> bool) \<Rightarrow> string \<Rightarrow> bool \<Rightarrow> descriptor list \<Rightarrow> row list
     \<Rightarrow> error option \<times> row list" where
  "update_phase accepts order_no orderExists [] rs = (None, rs)"
| "update_phase accepts order_no orderExists (update # rest) rs =
     (case update_item accepts order_no orderExists update rs of
        (Some e, rs') \<Rightarrow> (Some e, rs')
      | (None, rs') \<Rightarrow> update_phase accepts order_no orderExists rest rs')"

subsection \<open>Insertions\<close>

definition lineTextFields :: "string list" where
  "lineTextFields =
     [''item_code'', ''item_name'', ''hsn'', ''delivery_mode'', ''uom'', ''transporter_name'']"

definition lineNumberFields :: "string list" where
  "lineNumberFields =
     [''gst'', ''sgst'', ''cgst'', ''igst'', ''quantity'', ''rate'', ''amount'', ''net_rate'',
      ''gross_amount'', ''disc_percentage'', ''disc_amount'', ''spl_disc_percentage'',
      ''spl_disc_amount'']"

text \<open>
  The object \<^verbatim>\<open>insertItem\<close>: \<^verbatim>\<open>order_no\<close>, the fourteen header fields from
  \<^verbatim>\<open>commonOrderDetails\<close>, and the twenty line fields \<^verbatim>\<open>cleanNewItem.f || d\<close> with
  \<^verbatim>\<open>d\<close> the empty string, \<^verbatim>\<open>0\<close>, or \<^verbatim>\<open>null\<close> for \<^verbatim>\<open>delivery_date\<close>.
\<close>

definition insertItem :: "string \<Rightarrow> jsobj \<Rightarrow> descriptor \<Rightarrow> jsobj" where
  "insertItem order_no common newItem =
     (\<lambda>key.
        if key = ''order_no'' then Some (JStr order_no)
        else if key \<in> set commonFields then common key
        else if key \<in> set lineTextFields then Some (or_else (item_fields newItem key) (JStr ''''))
        else if key \<in> set lineNumberFields then Some (or_else (item_fields newItem key) (JNum 0))
        else if key = ''delivery_date'' then Some (or_else (item_fields newItem key) JNull)
        else None)"

definition insertFields :: "string list" where
  "insertFields = ''order_no'' # commonFields @ lineTextFields @ lineNumberFields @ [''delivery_date'']"

text \<open>
  The inserts run one by one; each takes the next value of the sequence as its
  \<^verbatim>\<open>id\<close>. The state of this phase is the rows and the sequence.
\<close>

fun insert_loop ::
  "(string \<Rightarrow> jsval \<Rightarrow> bool) \<Rightarrow> nat \<Rightarrow> jsobj list \<Rightarrow> row list \<times> int
     \<Rightarrow> error option \<times> (row list \<times> int)" where
  "insert_loop accepts index [] (rs, next_id) = (None, (rs, next_id))"
| "insert_loop accepts index (item # rest) (rs, next_id) =
     (if \<not> accepted accepts insertFields item then (Some (InsertFailed index), (rs, next_id))
      else insert_loop accepts (Suc index) rest (rs @ [item(''id'' \<mapsto> JNum next_id)], next_id + 1))"

definition insert_phase ::
  "(string \<Rightarrow> jsval \<Rightarrow> bool) \<Rightarrow> string \<Rightarrow> jsobj \<Rightarrow> descriptor list \<Rightarrow> row list \<times> int
     \<Rightarrow> error option \<times> (row list \<times> int)" where
  "insert_phase accepts order_no common toInsert st =
     insert_loop accepts 0 (map (insertItem order_no common) toInsert) st"

subsection \<open>Header broadcast\<close>

definition broadcast_row :: "string \<Rightarrow> jsobj \<Rightarrow> row \<Rightarrow> row" where
  "broadcast_row order_no common r =
     (if has_order_no order_no r then r ++ (common |` set commonFields) else r)"

definition broadcast_phase ::
  "(string \<Rightarrow> jsval \<Rightarrow> bool) \<Rightarrow> string \<Rightarrow> bool \<Rightarrow> descriptor list \<Rightarrow> jsobj \<Rightarrow> row list
     \<Rightarrow> error option \<times> row list" where
  "broadcast_phase accepts order_no orderExists toInsert common rs =
     (if orderExists \<or> toInsert \<noteq> [] then
        (if \<not> accepted accepts commonFields common then (Some StoreError, rs)
         else (None, map (broadcast_row order_no common) rs))
      else (None, rs))"

section \<open>The transaction orchestrator\<close>

text \<open>
  The phases as steps on the store, and their run in sequence: the first error ends
  the run, as a \<^verbatim>\<open>throw\<close> leaves the \<^verbatim>\<open>try\<close> block.
\<close>

definition on_rows :: "(row list \<Rightarrow> error option \<times> row list) \<Rightarrow> db \<Rightarrow> error option \<times> db" where
  "on_rows phase s = (case phase (rows s) of (e, rs) \<Rightarrow> (e, s\<lparr>rows := rs\<rparr>))"

definition on_rows_seq ::
  "(row list \<times> int \<Rightarrow> error option \<times> (row list \<times> int)) \<Rightarrow> db \<Rightarrow> error option \<times> db" where
  "on_rows_seq phase s =
     (case phase (rows s, seq s) of (e, (rs, n)) \<Rightarrow> (e, s\<lparr>rows := rs, seq := n\<rparr>))"

fun run :: "(db \<Rightarrow> error option \<times> db) list \<Rightarrow> db \<Rightarrow> error option \<times> db" where
  "run [] s = (None, s)"
| "run (phase # phases) s =
     (case phase s of
        (Some e, s') \<Rightarrow> (Some e, s')
      | (None, s') \<Rightarrow> run phases s')"

definition orderExists :: "string \<Rightarrow> row list \<Rightarrow> bool" where
  "orderExists order_no rs = (length (filter (has_order_no order_no) rs) > 0)"

definition phases ::
  "(string \<Rightarrow> jsval \<Rightarrow> bool) \<Rightarrow> string \<Rightarrow> string \<Rightarrow> descriptor list \<Rightarrow> bool
     \<Rightarrow> (db \<Rightarrow> error option \<times> db) list" where
  "phases accepts today order_no items exists =
     (let common = commonOrderDetails today items
      in [on_rows (delete_phase order_no exists (itemsToDelete items)),
          on_rows (update_phase accepts order_no exists (itemsToUpdate items)),
          on_rows_seq (insert_phase accepts order_no common (itemsToInsert items)),
          on_rows (broadcast_phase accepts order_no exists (itemsToInsert items) common)])"

definition BEGIN :: "db \<Rightarrow> db" where
  "BEGIN s = s\<lparr>transactions := Suc (transactions s)\<rparr>"

text \<open>\<^verbatim>\<open>ROLLBACK\<close> restores the rows of the snapshot; the sequence is not transactional.\<close>

definition ROLLBACK :: "db \<Rightarrow> db \<Rightarrow> db" where
  "ROLLBACK snapshot s = s\<lparr>rows := rows snapshot\<rparr>"

definition success :: "string \<Rightarrow> descriptor list \<Rightarrow> jsobj \<Rightarrow> row list \<Rightarrow> response" where
  "success order_no items common rs =
     (let finalResult = sort_key order_by_id (filter (has_order_no order_no) rs)
      in \<lparr>data = finalResult,
          inserted = length (itemsToInsert items),
          updated = length (itemsToUpdate items),
          deleted = length (itemsToDelete items),
          total = length finalResult,
          customer_name = common ''customer_name'',
          total_amount = common ''total_amount'',
          status = common ''status''\<rparr>)"

text \<open>
  \<^verbatim>\<open>app.put("/orders-by-number/:order_no")\<close> of \<^verbatim>\<open>firebase-connector.js\<close>: the reply and
  the store after the request.
\<close>

definition put_orders_by_number ::
  "(string \<Rightarrow> jsval \<Rightarrow> bool) \<Rightarrow> string \<Rightarrow> string \<Rightarrow> descriptor list \<Rightarrow> db \<Rightarrow> reply \<times> db" where
  "put_orders_by_number accepts today order_no body s =
     (let items = allItems body
      in if order_no = [] \<or> trim order_no = [] then (BadRequest ''Order Number is required'', s)
         else if items = [] then (BadRequest ''No data provided'', s)
         else
           (let s0 = BEGIN s;
                exists = orderExists order_no (rows s0)
            in if \<not> exists \<and> itemsToInsert items = [] then (Failed OrderMissing, ROLLBACK s0 s0)
               else
                 (case run (phases accepts today order_no items exists) s0 of
                    (Some e, s') \<Rightarrow> (Failed e, ROLLBACK s0 s')
                  | (None, s') \<Rightarrow>
                      (Succeeded (success order_no items (commonOrderDetails today items) (rows s')),
                       s'))))"

text \<open>
  The request as it arrives. \<^verbatim>\<open>express.json()\<close> leaves in \<^verbatim>\<open>req.body\<close> an array or an
  object that is not one. The first statement of the handler after the parameters is
  \<^verbatim>\<open>[...req.body].sort(...)\<close>, before either guard and outside the \<^verbatim>\<open>try\<close> block: on a body
  that is not an array the spread throws a \<^verbatim>\<open>TypeError\<close>, which nothing in the handler
  catches, so the handler sends no reply and has not reached the store.
\<close>

datatype request_body = NotArray | Array "descriptor list"

datatype 'r outcome = TypeError | Replied 'r

definition put_orders_by_number_request ::
  "(string \<Rightarrow> jsval \<Rightarrow> bool) \<Rightarrow> string \<Rightarrow> string \<Rightarrow> request_body \<Rightarrow> db
     \<Rightarrow> reply outcome \<times> db" where
  "put_orders_by_number_request accepts today order_no body s =
     (case body of
        NotArray \<Rightarrow> (TypeError, s)
      | Array items \<Rightarrow>
          (case put_orders_by_number accepts today order_no items s of
             (r, s') \<Rightarrow> (Replied r, s')))"

section \<open>The earlier handler, with validation\<close>

text \<open>
  \<^verbatim>\<open>app.put("/orders-by-number/:order_no")\<close> of the second source file
  (\<^verbatim>\<open>src/unnamed/part_000\<close>), which handles updates and deletions only and validates the
  descriptors before it connects to the store.

  It sorts the body with the comparator \<^verbatim>\<open>a.id - b.id\<close>: the stable sort by id when every
  descriptor has an id, which is what the validation demands before the store is reached;
  for another batch only the order of the validation errors depends on the sort.

  \<^verbatim>\<open>isNaN(v)\<close> and the comparisons \<^verbatim>\<open>v < 0\<close>, \<^verbatim>\<open>v > 100\<close> convert \<open>v\<close> to a number. The
  conversion of a string (ECMAScript \<^verbatim>\<open>StringToNumber\<close>) is the parameter
  \<open>string_to_number\<close>; \<open>None\<close> is \<^verbatim>\<open>NaN\<close>.
\<close>

fun to_number :: "(string \<Rightarrow> int option) \<Rightarrow> jsval \<Rightarrow> int option" where
  "to_number string_to_number JNull = Some 0"
| "to_number string_to_number (JBool b) = Some (if b then 1 else 0)"
| "to_number string_to_number (JNum n) = Some n"
| "to_number string_to_number (JStr s) = string_to_number s"

definition isNaN :: "(string \<Rightarrow> int option) \<Rightarrow> jsval \<Rightarrow> bool" where
  "isNaN string_to_number v = (to_number string_to_number v = None)"

definition numericFields :: "string list" where
  "numericFields =
     [''disc_percentage'', ''disc_amount'', ''spl_disc_percentage'', ''spl_disc_amount'',
      ''net_rate'', ''gross_amount'', ''total_quantity'', ''total_amount'', ''quantity'',
      ''total_sgst_amount'', ''total_cgst_amount'', ''total_igst_amount'',
      ''total_amount_without_tax'', ''sgst'', ''cgst'', ''igst'', ''gst'']"

datatype validation_error =
    DeleteIdRequired nat
  | UpdateIdRequired nat
  | MustBeNumber nat string
  | GstOutOfRange nat

text \<open>
  The body of \<^verbatim>\<open>updates.forEach((update, index) => ...)\<close>. A descriptor is an object
  here, so the first check (\<^verbatim>\<open>typeof update !== "object"\<close>) never fires; its id is an
  integer or absent, so \<^verbatim>\<open>!update.id || isNaN(update.id)\<close> is \<^verbatim>\<open>!update.id\<close>.
\<close>

definition validate :: "(string \<Rightarrow> int option) \<Rightarrow> nat \<Rightarrow> descriptor \<Rightarrow> validation_error list" where
  "validate string_to_number index update =
     (if is_deleted update then
        (if \<not> has_id update then [DeleteIdRequired index] else [])
      else
        (if \<not> has_id update then [UpdateIdRequired index] else [])
        @ map (MustBeNumber index)
            (filter (\<lambda>field. case item_fields update field of
                                None \<Rightarrow> False
                              | Some v \<Rightarrow> isNaN string_to_number v) numericFields)
        @ (case item_fields update ''gst'' of
             None \<Rightarrow> []
           | Some v \<Rightarrow>
               (case to_number string_to_number v of
                  None \<Rightarrow> []
                | Some n \<Rightarrow> if n < 0 \<or> n > 100 then [GstOutOfRange index] else [])))"

definition validationErrors ::
  "(string \<Rightarrow> int option) \<Rightarrow> descriptor list \<Rightarrow> validation_error list" where
  "validationErrors string_to_number updates =
     concat (map (\<lambda>(index, update). validate string_to_number index update)
               (enumerate 0 updates))"

definition allowedFields_part_000 :: "string list" where
  "allowedFields_part_000 =
     [''status'', ''disc_percentage'', ''disc_amount'', ''spl_disc_percentage'',
      ''spl_disc_amount'', ''net_rate'', ''gross_amount'', ''total_quantity'',
      ''total_amount'', ''total_amount_without_tax'', ''remarks'', ''quantity'',
      ''delivery_date'', ''delivery_mode'', ''transporter_name'',
      ''total_sgst_amount'', ''total_cgst_amount'', ''total_igst_amount'',
      ''sgst'', ''cgst'', ''igst'', ''gst'', ''hsn'', ''rate'', ''amount'', ''uom'']"

datatype error_part_000 = IdsNotOfOrder | NoRecordFound int | StoreRejected

text \<open>One pass of the update loop: skip, throw, or write.\<close>

definition update_item_part_000 ::
  "(string \<Rightarrow> jsval \<Rightarrow> bool) \<Rightarrow> string \<Rightarrow> descriptor \<Rightarrow> row list
     \<Rightarrow> error_part_000 option \<times> row list" where
  "update_item_part_000 accepts order_no update rs =
     (let i = id_or_zero update; flds = item_fields update
      in if list_all (\<lambda>key. flds key = None) allowedFields_part_000 then (None, rs)
         else if \<not> accepted accepts allowedFields_part_000 flds then (Some StoreRejected, rs)
         else if filter (\<lambda>r. row_has_id i r \<and> has_order_no order_no r) rs = []
           then (Some (NoRecordFound i), rs)
         else (None, map (\<lambda>r. if row_has_id i r \<and> has_order_no order_no r
                                then r ++ (flds |` set allowedFields_part_000) else r) rs))"

fun update_loop_part_000 ::
  "(string \<Rightarrow> jsval \<Rightarrow> bool) \<Rightarrow> string \<Rightarrow> descriptor list \<Rightarrow> row list
     \<Rightarrow> error_part_000 option \<times> row list" where
  "update_loop_part_000 accepts order_no [] rs = (None, rs)"
| "update_loop_part_000 accepts order_no (update # rest) rs =
     (case update_item_part_000 accepts order_no update rs of
        (Some e, rs') \<Rightarrow> (Some e, rs')
      | (None, rs') \<Rightarrow> update_loop_part_000 accepts order_no rest rs')"

text \<open>The \<^verbatim>\<open>try\<close> block up to \<^verbatim>\<open>COMMIT\<close>: the check of all ids, the deletions, the updates.\<close>

definition transaction_part_000 ::
  "(string \<Rightarrow> jsval \<Rightarrow> bool) \<Rightarrow> string \<Rightarrow> descriptor list \<Rightarrow> row list
     \<Rightarrow> error_part_000 option \<times> row list" where
  "transaction_part_000 accepts order_no updates rs =
     (let toUpdate = filter (\<lambda>item. \<not> is_deleted item) updates;
          toDelete = filter (\<lambda>item. is_deleted item \<and> has_id item) updates;
          allOrderIds = map id_or_zero updates;
          verifyResult = filter (\<lambda>r. id_in allOrderIds r \<and> has_order_no order_no r) rs
      in if length verifyResult \<noteq> length allOrderIds then (Some IdsNotOfOrder, rs)
         else
           (let deleteIds = map id_or_zero toDelete;
                rs1 = (if toDelete \<noteq> []
                       then filter (\<lambda>r. \<not> (id_in deleteIds r \<and> has_order_no order_no r)) rs
                       else rs)
            in update_loop_part_000 accepts order_no toUpdate rs1))"

record response_part_000 =
  updatedCount :: nat
  deletedCount :: nat
  updated_data :: "row list"

datatype reply_part_000 =
    Rejected string
  | UpdateFailed error_part_000
  | Processed response_part_000

definition put_orders_by_number_part_000 ::
  "(string \<Rightarrow> int option) \<Rightarrow> (string \<Rightarrow> jsval \<Rightarrow> bool) \<Rightarrow> string \<Rightarrow> descriptor list \<Rightarrow> db
     \<Rightarrow> reply_part_000 \<times> db" where
  "put_orders_by_number_part_000 string_to_number accepts order_no body s =
     (let updates = sort_key id_or_zero body
      in if order_no = [] \<or> trim order_no = [] then (Rejected ''Order Number is required'', s)
         else if updates = [] then (Rejected ''No update data provided'', s)
         else if validationErrors string_to_number updates \<noteq> [] then (Rejected ''Validation failed'', s)
         else
           (let s0 = BEGIN s
            in case transaction_part_000 accepts order_no updates (rows s0) of
                 (Some e, rs) \<Rightarrow> (UpdateFailed e, ROLLBACK s0 (s0\<lparr>rows := rs\<rparr>))
               | (None, rs) \<Rightarrow>
                   (Processed
                      \<lparr>updatedCount = length (filter (\<lambda>item. \<not> is_deleted item) updates),
                       deletedCount = length (filter (\<lambda>item. is_deleted item \<and> has_id item) updates),
                       updated_data = sort_key order_by_id (filter (has_order_no order_no) rs)\<rparr>,
                    s0\<lparr>rows := rs\<rparr>)))"

text \<open>
  The request as it arrives: this handler too starts with \<^verbatim>\<open>[...req.body].sort(...)\<close>,
  before the guards.
\<close>

definition put_orders_by_number_part_000_request ::
  "(string \<Rightarrow> int option) \<Rightarrow> (string \<Rightarrow> jsval \<Rightarrow> bool) \<Rightarrow> string \<Rightarrow> request_body \<Rightarrow> db
     \<Rightarrow> reply_part_000 outcome \<times> db" where
  "put_orders_by_number_part_000_request string_to_number accepts order_no body s =
     (case body of
        NotArray \<Rightarrow> (TypeError, s)
      | Array updates \<Rightarrow>
          (case put_orders_by_number_part_000 string_to_number accepts order_no updates s of
             (r, s') \<Rightarrow> (Replied r, s')))"

section \<open>Reference definitions of the header fields\<close>

definition totalFields :: "string list" where
  "totalFields =
     [''total_quantity'', ''total_amount'', ''total_amount_without_tax'',
      ''total_sgst_amount'', ''total_cgst_amount'', ''total_igst_amount'']"

text \<open>
  The reference definition as claim C5 words it: the source is the first non-deleted
  descriptor of the batch that carries an id, or else the first non-deleted descriptor;
  a header field absent from the source takes the default: the status a pending value,
  the date the current date, the numeric totals zero, the textual fields the empty
  string.
\<close>

definition spec_source :: "descriptor list \<Rightarrow> descriptor option" where
  "spec_source batch =
     (case find has_id (filter (\<lambda>item. \<not> is_deleted item) batch) of
        Some item \<Rightarrow> Some item
      | None \<Rightarrow>
          (case filter (\<lambda>item. \<not> is_deleted item) batch of [] \<Rightarrow> None | item # _ \<Rightarrow> Some item))"

definition spec_default :: "string \<Rightarrow> string \<Rightarrow> jsval" where
  "spec_default today field =
     (if field = ''status'' then JStr ''pending''
      else if field = ''order_date'' then JStr today
      else if field \<in> set totalFields then JNum 0
      else JStr '''')"

definition header_from ::
  "(string \<Rightarrow> jsval) \<Rightarrow> descriptor option \<Rightarrow> jsobj" where
  "header_from dflt source =
     (\<lambda>field.
        if field \<in> set commonFields then
          (case source of
             None \<Rightarrow> Some (dflt field)
           | Some item \<Rightarrow>
               (case item_fields item field of
                  None \<Rightarrow> Some (dflt field)
                | Some v \<Rightarrow> Some v))
        else None)"

definition spec_header :: "string \<Rightarrow> descriptor list \<Rightarrow> jsobj" where
  "spec_header today batch = header_from (spec_default today) (spec_source batch)"

text \<open>
  The amended reference: among the non-deleted descriptors that carry an id, the source
  is the one with the least id (the earliest of the batch among equal ids); with no such
  descriptor it is the first non-deleted descriptor of the batch. The default of
  \<^verbatim>\<open>voucher_type\<close> is \<^verbatim>\<open>Sales Order\<close>.
\<close>

definition least_id_source :: "descriptor list \<Rightarrow> descriptor option" where
  "least_id_source batch =
     (let valid = filter (\<lambda>item. \<not> is_deleted item) batch;
          with_id = filter has_id valid
      in if with_id \<noteq> []
         then find (\<lambda>item. id_or_zero item = Min (set (map id_or_zero with_id))) with_id
         else (case valid of [] \<Rightarrow> None | item # _ \<Rightarrow> Some item))"

definition code_default :: "string \<Rightarrow> string \<Rightarrow> jsval" where
  "code_default today field =
     (if field = ''voucher_type'' then JStr ''Sales Order'' else spec_default today field)"

definition amended_header :: "string \<Rightarrow> descriptor list \<Rightarrow> jsobj" where
  "amended_header today batch = header_from (code_default today) (least_id_source batch)"

section \<open>Example data\<close>

text \<open>
  The batch of the specification's end-to-end example,
  \<^verbatim>\<open>[{item_code:"A", quantity:2}, {id:10, quantity:5}, {id:11, _deleted:true}]\<close>, and a
  store that holds the order with the lines 10 and 11 and one line of another order.
\<close>

definition new_line :: descriptor where
  "new_line = \<lparr>item_id = None, item_deleted = None,
                item_fields = [''item_code'' \<mapsto> JStr ''A'', ''quantity'' \<mapsto> JNum 2]\<rparr>"

definition changed_line :: descriptor where
  "changed_line = \<lparr>item_id = Some 10, item_deleted = None,
                    item_fields = [''quantity'' \<mapsto> JNum 5]\<rparr>"

definition removed_line :: descriptor where
  "removed_line = \<lparr>item_id = Some 11, item_deleted = Some (JBool True),
                    item_fields = Map.empty\<rparr>"

definition row10 :: row where
  "row10 = [''id'' \<mapsto> JNum 10, ''order_no'' \<mapsto> JStr ''SQ-01-01-24-0001'',
            ''quantity'' \<mapsto> JNum 1, ''status'' \<mapsto> JStr ''pending'']"

definition row11 :: row where
  "row11 = [''id'' \<mapsto> JNum 11, ''order_no'' \<mapsto> JStr ''SQ-01-01-24-0001'',
            ''quantity'' \<mapsto> JNum 3, ''status'' \<mapsto> JStr ''pending'']"

definition row20 :: row where
  "row20 = [''id'' \<mapsto> JNum 20, ''order_no'' \<mapsto> JStr ''SQ-01-01-24-0002'',
            ''quantity'' \<mapsto> JNum 7, ''status'' \<mapsto> JStr ''approved'']"

definition store0 :: db where
  "store0 = \<lparr>rows = [row10, row11, row20], seq = 21, transactions = 0\<rparr>"

text \<open>Descriptors used where a claim fails.\<close>

definition bare_line :: descriptor where
  "bare_line = \<lparr>item_id = None, item_deleted = None, item_fields = Map.empty\<rparr>"

definition line5 :: descriptor where
  "line5 = \<lparr>item_id = Some 5, item_deleted = None, item_fields = [''status'' \<mapsto> JStr ''a'']\<rparr>"

definition line3 :: descriptor where
  "line3 = \<lparr>item_id = Some 3, item_deleted = None, item_fields = [''status'' \<mapsto> JStr ''b'']\<rparr>"

definition foreign_line :: descriptor where
  "foreign_line = \<lparr>item_id = Some 20, item_deleted = None,
                    item_fields = [''quantity'' \<mapsto> JNum 9]\<rparr>"

definition example_batch :: "descriptor list" where
  "example_batch = [new_line, changed_line, removed_line]"

text \<open>The store the example request leaves.\<close>

definition store1 :: db where
  "store1 =
     \<lparr>rows = map (broadcast_row ''SQ-01-01-24-0001'' (defaultOrderDetails ''2024-01-01''))
          [row10(''quantity'' \<mapsto> JNum 5), row20,
           (insertItem ''SQ-01-01-24-0001'' (defaultOrderDetails ''2024-01-01'') new_line)
             (''id'' \<mapsto> JNum 21)],
      seq = 22, transactions = 1\<rparr>"

definition flag_only :: descriptor where
  "flag_only = \<lparr>item_id = None, item_deleted = Some (JBool True), item_fields = Map.empty\<rparr>"

text \<open>
  Line 10 with an \<^verbatim>\<open>order_date\<close> of its own, for a resubmission on another day.
\<close>

definition dated_line :: descriptor where
  "dated_line = \<lparr>item_id = Some 10, item_deleted = None,
                  item_fields = [''quantity'' \<mapsto> JNum 5, ''order_date'' \<mapsto> JStr ''2023-12-31'']\<rparr>"

text \<open>
  Malformed descriptors: line 10 with a gst of 150, line 10 with the quantity \<^verbatim>\<open>true\<close>,
  and the deletion of line 11 with the quantity \<^verbatim>\<open>"abc"\<close>.
\<close>

definition gst_line :: descriptor where
  "gst_line = \<lparr>item_id = Some 10, item_deleted = None, item_fields = [''gst'' \<mapsto> JNum 150]\<rparr>"

definition bool_line :: descriptor where
  "bool_line = \<lparr>item_id = Some 10, item_deleted = None,
                 item_fields = [''quantity'' \<mapsto> JBool True]\<rparr>"

definition deleted_bad :: descriptor where
  "deleted_bad = \<lparr>item_id = Some 11, item_deleted = Some (JBool True),
                   item_fields = [''quantity'' \<mapsto> JStr ''abc'']\<rparr>"

section \<open>Notions used in the statements\<close>

text \<open>A change of a row that leaves its \<^verbatim>\<open>id\<close> and its \<^verbatim>\<open>order_no\<close> as they are.\<close>

definition same_key :: "(row \<Rightarrow> row) \<Rightarrow> bool" where
  "same_key f = (\<forall>r. f r ''id'' = r ''id'' \<and> f r ''order_no'' = r ''order_no'')"



text \<open>
  What the update phase, when it does not throw, does to one row: the descriptors in
  turn, each overwriting its allowed fields in the row it names. \<open>changes\<close> collects
  the columns written to a row.
\<close>

definition update_step :: "string \<Rightarrow> descriptor \<Rightarrow> row \<Rightarrow> row" where
  "update_step order_no update r =
     (if no_valid_fields (item_fields update) then r
      else update_row order_no (id_or_zero update) (item_fields update) r)"

fun apply_updates :: "string \<Rightarrow> descriptor list \<Rightarrow> row \<Rightarrow> row" where
  "apply_updates order_no [] r = r"
| "apply_updates order_no (update # rest) r =
     apply_updates order_no rest (update_step order_no update r)"

fun changes :: "string \<Rightarrow> descriptor list \<Rightarrow> row \<Rightarrow> jsobj" where
  "changes order_no [] r = Map.empty"
| "changes order_no (update # rest) r =
     (if \<not> no_valid_fields (item_fields update) \<and> row_has_id (id_or_zero update) r
         \<and> has_order_no order_no r
      then filteredFields (item_fields update) else Map.empty) ++ changes order_no rest r"

definition row_key :: "row \<Rightarrow> jsval option \<times> jsval option" where
  "row_key r = (r ''id'', r ''order_no'')"

text \<open>The condition under which a batch of updates alone is committed.\<close>

definition updates_commit ::
  "(string \<Rightarrow> jsval \<Rightarrow> bool) \<Rightarrow> string \<Rightarrow> string \<Rightarrow> descriptor list \<Rightarrow> row list \<Rightarrow> bool" where
  "updates_commit accepts today order_no body rs =
     (\<not> (order_no = [] \<or> trim order_no = []) \<and> body \<noteq> [] \<and> orderExists order_no rs
      \<and> fst (update_phase accepts order_no True (allItems body) rs) = None
      \<and> accepted accepts commonFields (commonOrderDetails today (allItems body)))"

text \<open>
  A malformed request, in the words of claim C7: the order number is missing, or the
  body is not an array or is the empty array, or some descriptor has, in a numeric
  field, a value that is not a number, or a gst that is a number outside 0..100.
\<close>

definition is_number :: "jsval \<Rightarrow> bool" where
  "is_number v = (case v of JNum _ \<Rightarrow> True | _ \<Rightarrow> False)"

definition non_numeric :: "descriptor \<Rightarrow> bool" where
  "non_numeric item =
     list_ex (\<lambda>field. case item_fields item field of
                         None \<Rightarrow> False
                       | Some v \<Rightarrow> \<not> is_number v) numericFields"

definition percentage_out_of_range :: "descriptor \<Rightarrow> bool" where
  "percentage_out_of_range item =
     (case item_fields item ''gst'' of
        Some (JNum n) \<Rightarrow> n < 0 \<or> 100 < n
      | _ \<Rightarrow> False)"

definition malformed :: "string \<Rightarrow> request_body \<Rightarrow> bool" where
  "malformed order_no body =
     (order_no = [] \<or> trim order_no = []
      \<or> (case body of
            NotArray \<Rightarrow> True
          | Array items \<Rightarrow>
              items = [] \<or> list_ex (\<lambda>item. non_numeric item \<or> percentage_out_of_range item) items))"

text \<open>
  What the validation of the second handler looks for in a descriptor that is not marked
  deleted: a numeric field whose value \<^verbatim>\<open>isNaN\<close> converts to \<^verbatim>\<open>NaN\<close>, or a gst whose
  conversion is below 0 or above 100.
\<close>

definition nan_in_numeric_field :: "(string \<Rightarrow> int option) \<Rightarrow> descriptor \<Rightarrow> bool" where
  "nan_in_numeric_field string_to_number item =
     list_ex (\<lambda>field. case item_fields item field of
                         None \<Rightarrow> False
                       | Some v \<Rightarrow> isNaN string_to_number v) numericFields"

definition gst_out_of_range :: "(string \<Rightarrow> int option) \<Rightarrow> descriptor \<Rightarrow> bool" where
  "gst_out_of_range string_to_number item =
     (case item_fields item ''gst'' of
        None \<Rightarrow> False
      | Some v \<Rightarrow>
          (case to_number string_to_number v of None \<Rightarrow> False | Some n \<Rightarrow> n < 0 \<or> n > 100))"

definition invalid :: "(string \<Rightarrow> int option) \<Rightarrow> descriptor \<Rightarrow> bool" where
  "invalid string_to_number item =
     (\<not> has_id item
      \<or> (\<not> is_deleted item
          \<and> (nan_in_numeric_field string_to_number item \<or> gst_out_of_range string_to_number item)))"

section \<open>Properties of the order-number generator\<close>

lemma split_on_not_Nil: "split_on c xs \<noteq> []"
  by (induction xs) (auto split: list.splits)

lemma split_on_no_sep: "c \<notin> set p \<Longrightarrow> split_on c p = [p]"
  by (induction p) auto

lemma split_on_prefix: "c \<notin> set p \<Longrightarrow> split_on c (p @ c # rest) = p # split_on c rest"
  by (induction p) (auto split: list.splits simp: split_on_not_Nil)

lemma is_digit_not_dash: "list_all is_digit s \<Longrightarrow> CHR ''-'' \<notin> set s"
  by (auto simp: list_all_iff is_digit_def charCode_def)

lemma is_digit_digit_val: "is_digit c \<Longrightarrow> digit_val 10 c \<noteq> None"
  by (auto simp: is_digit_def digit_val_def hex_val_def)

lemma leading_space_digit: "is_digit c \<Longrightarrow> leading_space (c # t) = 0"
proof -
  assume d: "is_digit c"
  have n: "c \<notin> set (map hd white_space)"
    using d by (auto simp: white_space_def is_digit_def charCode_def)
  have "filter (\<lambda>w. take (length w) (c # t) = w) white_space = []"
    unfolding filter_empty_conv
  proof
    fix w assume w: "w \<in> set white_space"
    then have "w \<noteq> []" by (auto simp: white_space_def)
    then obtain a r where ar: "w = a # r" by (cases w) auto
    then have "a \<in> set (map hd white_space)" using w by force
    then have "a \<noteq> c" using n by auto
    then show "\<not> take (length w) (c # t) = w" using ar by auto
  qed
  then show ?thesis by (simp add: leading_space_def)
qed

lemma trimStart_digit: "is_digit c \<Longrightarrow> trimStart (c # t) = c # t"
  by (simp add: trimStart.simps[of "c # t"] leading_space_digit)

lemma trim_unchanged: "leading_space s = 0 \<Longrightarrow> trailing_space s = 0 \<Longrightarrow> trim s = s"
  by (simp add: trim_def trimStart.simps[of s] trimEnd.simps[of s])

lemma parseInt_digits:
  assumes "list_all is_digit s" "s \<noteq> []"
  shows "parseInt s = Some (int (digits_value 10 s))"
proof -
  obtain c t where s: "s = c # t" using assms(2) by (cases s) auto
  have c: "is_digit c" using assms(1) s by simp
  have nm: "take 1 s \<noteq> ''-''" "take 1 s \<noteq> ''+''"
    using c s by (auto simp: is_digit_def charCode_def)
  have nhex: "take 2 s \<noteq> ''0x''" "take 2 s \<noteq> ''0X''"
    using assms(1) s by (cases t; auto simp: is_digit_def charCode_def)+
  have tw: "takeWhile (\<lambda>c. digit_val 10 c \<noteq> None) s = s"
    using assms(1) is_digit_digit_val by (simp add: takeWhile_eq_all_conv list_all_iff)
  have dw: "trimStart s = s" using s c by (simp add: trimStart_digit)
  show ?thesis
    by (simp only: parseInt_def Let_def dw nm nhex tw assms(2) simp_thms if_False)
qed

lemma digit_char_digit: "d < 10 \<Longrightarrow> is_digit (digit_char d) \<and> digit_val 10 (digit_char d) = Some d"
proof -
  assume "d < 10"
  then have "d = 0 \<or> d = 1 \<or> d = 2 \<or> d = 3 \<or> d = 4 \<or> d = 5 \<or> d = 6 \<or> d = 7
    \<or> d = 8 \<or> d = 9" by arith
  then show ?thesis
    by (elim disjE) (simp_all add: digit_char_def is_digit_def digit_val_def hex_val_def charCode_def)
qed

lemma digits_value_snoc:
  "digits_value 10 (s @ [c]) = 10 * digits_value 10 s + the (digit_val 10 c)"
  by (simp add: digits_value_def)

lemma nat_to_string_digits:
  "list_all is_digit (nat_to_string n) \<and> digits_value 10 (nat_to_string n) = n"
proof (induction n rule: nat_to_string.induct)
  case (1 n)
  show ?case
  proof (cases "n < 10")
    case True
    then show ?thesis
      using digit_char_digit[of n] by (simp add: nat_to_string.simps[of n] digits_value_def)
  next
    case False
    then have ih: "list_all is_digit (nat_to_string (n div 10))"
      "digits_value 10 (nat_to_string (n div 10)) = n div 10"
      using 1 by simp_all
    have d: "is_digit (digit_char (n mod 10))" "digit_val 10 (digit_char (n mod 10)) = Some (n mod 10)"
      using digit_char_digit[of "n mod 10"] by simp_all
    show ?thesis
      using False ih d by (simp add: nat_to_string.simps[of n] digits_value_snoc)
  qed
qed

lemma nat_to_string_length: "n < 10 ^ k \<Longrightarrow> 0 < k \<Longrightarrow> length (nat_to_string n) \<le> k"
proof (induction n arbitrary: k rule: nat_to_string.induct)
  case (1 n)
  show ?case
  proof (cases "n < 10")
    case True
    then show ?thesis using 1(3) by (simp add: nat_to_string.simps[of n])
  next
    case False
    then obtain j where k: "k = Suc j" "0 < j"
      using 1(2,3) by (cases k; cases "k - 1") auto
    have "n div 10 < 10 ^ j" using 1(2) k by (simp add: less_mult_imp_div_less mult.commute)
    then have "length (nat_to_string (n div 10)) \<le> j" using 1(1)[OF False _ k(2)] by simp
    then show ?thesis using False k by (simp add: nat_to_string.simps[of n])
  qed
qed

lemma digits_value_zeros: "digits_value 10 (replicate m CHR ''0'' @ s) = digits_value 10 s"
proof -
  have dz: "the (digit_val 10 CHR ''0'') = 0"
    by (simp add: digit_val_def hex_val_def charCode_def)
  have "foldl (\<lambda>a c. 10 * a + the (digit_val 10 c)) 0 (replicate m CHR ''0'') = 0"
    by (induction m) (simp_all add: dz)
  then show ?thesis by (simp add: digits_value_def)
qed

lemma next_sequence_digits:
  "list_all is_digit (padStart 4 CHR ''0'' (int_to_string (int n + 1)))
   \<and> digits_value 10 (padStart 4 CHR ''0'' (int_to_string (int n + 1))) = n + 1
   \<and> (n < 9999 \<longrightarrow> length (padStart 4 CHR ''0'' (int_to_string (int n + 1))) = 4)"
proof -
  have i: "int_to_string (int n + 1) = nat_to_string (n + 1)"
    by (simp add: int_to_string_def nat_add_distrib)
  have z: "is_digit CHR ''0''" by (simp add: is_digit_def charCode_def)
  have l: "length (nat_to_string (n + 1)) \<le> 4" if "n < 9999"
    using nat_to_string_length[of "n + 1" 4] that by simp
  show ?thesis
    using nat_to_string_digits[of "n + 1"] z l
    by (auto simp: i padStart_def digits_value_zeros list_all_iff)
qed

text \<open>
  The clock in the order number. A number below \<open>10 ^ k\<close>, printed and padded with zeros
  to \<open>k\<close> characters, is \<open>k\<close> decimal digits that read the number; the last two characters
  of a printed number from 10 on are the two decimal digits of the number modulo 100.
\<close>

lemma padStart_digits:
  assumes "n < 10 ^ k" "0 < k"
  shows "length (padStart k CHR ''0'' (nat_to_string n)) = k
         \<and> list_all is_digit (padStart k CHR ''0'' (nat_to_string n))
         \<and> digits_value 10 (padStart k CHR ''0'' (nat_to_string n)) = n"
proof -
  have z: "is_digit CHR ''0''" by (simp add: is_digit_def charCode_def)
  have l: "length (nat_to_string n) \<le> k" using nat_to_string_length[OF assms] .
  show ?thesis
    using nat_to_string_digits[of n] z l
    by (auto simp: padStart_def digits_value_zeros list_all_iff)
qed

lemma nat_to_string_last:
  "\<exists>p. nat_to_string n = p @ [digit_char (n mod 10)]"
  by (cases "n < 10") (simp_all add: nat_to_string.simps[of n])

lemma slice_last_two:
  assumes "10 \<le> n"
  shows "slice_last 2 (nat_to_string n) = [digit_char (n div 10 mod 10), digit_char (n mod 10)]"
proof -
  obtain p where p: "nat_to_string (n div 10) = p @ [digit_char (n div 10 mod 10)]"
    using nat_to_string_last[of "n div 10"] by blast
  have "nat_to_string n = p @ [digit_char (n div 10 mod 10), digit_char (n mod 10)]"
    using assms p by (simp add: nat_to_string.simps[of n])
  then show ?thesis by (simp add: slice_last_def)
qed

lemma clock_digits:
  assumes "getDate today \<le> 31" "getMonth today \<le> 11" "10 \<le> getFullYear today"
  shows "length (day today) = 2 \<and> list_all is_digit (day today)
         \<and> digits_value 10 (day today) = getDate today"
    and "length (month today) = 2 \<and> list_all is_digit (month today)
         \<and> digits_value 10 (month today) = getMonth today + 1"
    and "length (year today) = 2 \<and> list_all is_digit (year today)
         \<and> digits_value 10 (year today) = getFullYear today mod 100"
proof -
  show "length (day today) = 2 \<and> list_all is_digit (day today)
         \<and> digits_value 10 (day today) = getDate today"
    using padStart_digits[of "getDate today" 2] assms(1) by (simp add: day_def)
  show "length (month today) = 2 \<and> list_all is_digit (month today)
         \<and> digits_value 10 (month today) = getMonth today + 1"
    using padStart_digits[of "getMonth today + 1" 2] assms(2) by (simp add: month_def)
  have d: "is_digit (digit_char (getFullYear today div 10 mod 10))"
    "digit_val 10 (digit_char (getFullYear today div 10 mod 10)) = Some (getFullYear today div 10 mod 10)"
    "is_digit (digit_char (getFullYear today mod 10))"
    "digit_val 10 (digit_char (getFullYear today mod 10)) = Some (getFullYear today mod 10)"
    using digit_char_digit[of "getFullYear today div 10 mod 10"]
          digit_char_digit[of "getFullYear today mod 10"] by simp_all
  have "10 * (getFullYear today div 10 mod 10) + getFullYear today mod 10 = getFullYear today mod 100"
    using mod_mult2_eq[of "getFullYear today" 10 10] by simp
  then show "length (year today) = 2 \<and> list_all is_digit (year today)
         \<and> digits_value 10 (year today) = getFullYear today mod 100"
    using d by (simp add: year_def slice_last_two[OF assms(3)] digits_value_def)
qed

text \<open>
  What the handler computes once the query has answered. For a latest order number
  \<^verbatim>\<open>SQ-DD-MM-YY-NNNN\<close> (two, two, two and four decimal digits) and any current date: when
  \<^verbatim>\<open>DD-MM-YY\<close> is the current date, the order number is \<^verbatim>\<open>SQ-DD-MM-YY-\<close> followed by
  \<open>NNNN + 1\<close> in decimal, padded with zeros on the left to four characters; otherwise,
  and when there is no latest order, it is \<^verbatim>\<open>SQ-\<close>, the current day, month and two-digit
  year, and \<^verbatim>\<open>-0001\<close>. The padded sequence is a string of decimal digits that reads
  \<open>NNNN + 1\<close>, of length four unless \<open>NNNN\<close> is \<open>9999\<close>.
\<close>

lemma orderNumber_spec:
  assumes "length dd = 2" "list_all is_digit dd"
      and "length mm = 2" "list_all is_digit mm"
      and "length yy = 2" "list_all is_digit yy"
      and "length nnnn = 4" "list_all is_digit nnnn"
  shows "orderNumber (Some (''SQ-'' @ dd @ ''-'' @ mm @ ''-'' @ yy @ ''-'' @ nnnn)) today =
           (if dd @ ''-'' @ mm @ ''-'' @ yy = currentDate today
            then ''SQ-'' @ dd @ ''-'' @ mm @ ''-'' @ yy @ ''-'' @
                   padStart 4 CHR ''0'' (int_to_string (int (digits_value 10 nnnn) + 1))
            else ''SQ-'' @ day today @ ''-'' @ month today @ ''-'' @ year today @ ''-0001'')
         \<and> orderNumber None today =
             ''SQ-'' @ day today @ ''-'' @ month today @ ''-'' @ year today @ ''-0001''
         \<and> list_all is_digit (padStart 4 CHR ''0'' (int_to_string (int (digits_value 10 nnnn) + 1)))
         \<and> digits_value 10 (padStart 4 CHR ''0'' (int_to_string (int (digits_value 10 nnnn) + 1)))
             = digits_value 10 nnnn + 1
         \<and> (digits_value 10 nnnn < 9999 \<longrightarrow>
              length (padStart 4 CHR ''0'' (int_to_string (int (digits_value 10 nnnn) + 1))) = 4)"
proof -
  let ?s = "''SQ-'' @ dd @ ''-'' @ mm @ ''-'' @ yy @ ''-'' @ nnnn"
  have nd: "CHR ''-'' \<notin> set dd" "CHR ''-'' \<notin> set mm" "CHR ''-'' \<notin> set yy" "CHR ''-'' \<notin> set nnnn"
    using assms by (simp_all add: is_digit_not_dash)
  have sq: "CHR ''-'' \<notin> set ''SQ''" by simp
  have e: "?s = ''SQ'' @ CHR ''-'' # (dd @ CHR ''-'' # (mm @ CHR ''-'' # (yy @ CHR ''-'' # nnnn)))"
    by simp
  have sp: "split_on CHR ''-'' ?s = [''SQ'', dd, mm, yy, nnnn]"
    unfolding e
    by (simp only: split_on_prefix[OF sq] split_on_prefix[OF nd(1)] split_on_prefix[OF nd(2)]
          split_on_prefix[OF nd(3)] split_on_no_sep[OF nd(4)])
  have ne: "nnnn \<noteq> []" using assms(7) by auto
  have pi: "parseInt nnnn = Some (int (digits_value 10 nnnn))"
    using parseInt_digits[OF assms(8) ne] .
  have cd: "currentDate today = day today @ ''-'' @ month today @ ''-'' @ year today"
    by (simp add: currentDate_def)
  have "nextSequence (Some s) today =
          (if dd @ ''-'' @ mm @ ''-'' @ yy = currentDate today
           then padStart 4 CHR ''0'' (int_to_string (int (digits_value 10 nnnn) + 1))
           else ''0001'')"
    if "s \<noteq> []" "split_on CHR ''-'' s = [''SQ'', dd, mm, yy, nnnn]" for s
    using that by (simp add: nextSequence_def part_def pi number_to_string_def Let_def)
  from this[OF _ sp]
  have "nextSequence (Some ?s) today =
          (if dd @ ''-'' @ mm @ ''-'' @ yy = currentDate today
           then padStart 4 CHR ''0'' (int_to_string (int (digits_value 10 nnnn) + 1))
           else ''0001'')"
    by simp
  moreover have "nextSequence None today = ''0001''" by (simp add: nextSequence_def)
  ultimately have "orderNumber (Some ?s) today =
           (if dd @ ''-'' @ mm @ ''-'' @ yy = currentDate today
            then ''SQ-'' @ dd @ ''-'' @ mm @ ''-'' @ yy @ ''-'' @
                   padStart 4 CHR ''0'' (int_to_string (int (digits_value 10 nnnn) + 1))
            else ''SQ-'' @ day today @ ''-'' @ month today @ ''-'' @ year today @ ''-0001'')
         \<and> orderNumber None today =
             ''SQ-'' @ day today @ ''-'' @ month today @ ''-'' @ year today @ ''-0001''"
    unfolding orderNumber_def by (auto simp: cd)
  then show ?thesis
    using next_sequence_digits[of "digits_value 10 nnnn"] by (intro conjI) blast+
qed

lemma orderNumber_examples:
  "orderNumber (Some ''SQ-05-06-24-0007'') \<lparr>getDate = 5, getMonth = 5, getFullYear = 2024\<rparr>
     = ''SQ-05-06-24-0008''"
  "orderNumber (Some ''SQ-05-06-24-0007'') \<lparr>getDate = 6, getMonth = 5, getFullYear = 2024\<rparr>
     = ''SQ-06-06-24-0001''"
  "orderNumber (Some ''SQ-30-12-25-0041'') \<lparr>getDate = 31, getMonth = 11, getFullYear = 2025\<rparr>
     = ''SQ-31-12-25-0001''"
  "orderNumber None \<lparr>getDate = 31, getMonth = 11, getFullYear = 2025\<rparr> = ''SQ-31-12-25-0001''"
  "orderNumber (Some ''SQ-31-12-25-0099'') \<lparr>getDate = 31, getMonth = 11, getFullYear = 2025\<rparr>
     = ''SQ-31-12-25-0100''"
proof -
  have j: "length ''31'' = 2" "list_all is_digit ''31''" "length ''12'' = 2"
    "list_all is_digit ''12''" "length ''25'' = 2" "list_all is_digit ''25''"
    "length ''0099'' = 4" "list_all is_digit ''0099''"
    by (simp_all add: is_digit_def charCode_def)
  have w: "digits_value 10 ''0099'' = 99"
    by (simp add: digits_value_def digit_val_def hex_val_def charCode_def)
  have h: "length ''05'' = 2" "list_all is_digit ''05''" "length ''06'' = 2"
    "list_all is_digit ''06''" "length ''24'' = 2" "list_all is_digit ''24''"
    "length ''0007'' = 4" "list_all is_digit ''0007''"
    by (simp_all add: is_digit_def charCode_def)
  have k: "length ''30'' = 2" "list_all is_digit ''30''" "length ''12'' = 2"
    "list_all is_digit ''12''" "length ''25'' = 2" "list_all is_digit ''25''"
    "length ''0041'' = 4" "list_all is_digit ''0041''"
    by (simp_all add: is_digit_def charCode_def)
  have d: "nat_to_string 5 = ''5''" "nat_to_string 6 = ''6''" "nat_to_string 2024 = ''2024''"
    "nat_to_string 8 = ''8''" "nat_to_string 31 = ''31''" "nat_to_string 12 = ''12''"
    "nat_to_string 2025 = ''2025''" "nat_to_string 100 = ''100''"
    by (simp_all add: nat_to_string.simps digit_char_def)
  have v: "digits_value 10 ''0007'' = 7"
    by (simp add: digits_value_def digit_val_def hex_val_def charCode_def)
  show "orderNumber (Some ''SQ-05-06-24-0007'') \<lparr>getDate = 5, getMonth = 5, getFullYear = 2024\<rparr>
     = ''SQ-05-06-24-0008''"
    using orderNumber_spec[OF h, of "\<lparr>getDate = 5, getMonth = 5, getFullYear = 2024\<rparr>"]
    by (simp add: currentDate_def day_def month_def year_def padStart_def slice_last_def d v
          int_to_string_def numeral_3_eq_3)
  show "orderNumber (Some ''SQ-05-06-24-0007'') \<lparr>getDate = 6, getMonth = 5, getFullYear = 2024\<rparr>
     = ''SQ-06-06-24-0001''"
    using orderNumber_spec[OF h, of "\<lparr>getDate = 6, getMonth = 5, getFullYear = 2024\<rparr>"]
    by (simp add: currentDate_def day_def month_def year_def padStart_def slice_last_def d v
          int_to_string_def numeral_3_eq_3)
  show "orderNumber (Some ''SQ-30-12-25-0041'') \<lparr>getDate = 31, getMonth = 11, getFullYear = 2025\<rparr>
     = ''SQ-31-12-25-0001''"
    using orderNumber_spec[OF k, of "\<lparr>getDate = 31, getMonth = 11, getFullYear = 2025\<rparr>"]
    by (simp add: currentDate_def day_def month_def year_def padStart_def slice_last_def d
          int_to_string_def numeral_3_eq_3)
  show "orderNumber None \<lparr>getDate = 31, getMonth = 11, getFullYear = 2025\<rparr> = ''SQ-31-12-25-0001''"
    using orderNumber_spec[OF k, of "\<lparr>getDate = 31, getMonth = 11, getFullYear = 2025\<rparr>"]
    by (simp add: currentDate_def day_def month_def year_def padStart_def slice_last_def d
          int_to_string_def numeral_3_eq_3)
  show "orderNumber (Some ''SQ-31-12-25-0099'') \<lparr>getDate = 31, getMonth = 11, getFullYear = 2025\<rparr>
     = ''SQ-31-12-25-0100''"
    using orderNumber_spec[OF j, of "\<lparr>getDate = 31, getMonth = 11, getFullYear = 2025\<rparr>"]
    by (simp add: currentDate_def day_def month_def year_def padStart_def slice_last_def d w
          int_to_string_def numeral_3_eq_3)
qed

text \<open>
  Claim C6 fails on the code. Whatever the current date and whatever order the table
  holds, the handler answers status 500 with the message of the \<^verbatim>\<open>ReferenceError\<close> and
  generates no order number: \<^verbatim>\<open>Order\<close> is not declared in the module, and evaluating
  \<^verbatim>\<open>Order.findOne\<close> is the first thing the handler does. The computation that follows
  is what the claim describes: were \<^verbatim>\<open>Order\<close> bound and its query answering the latest
  order \<^verbatim>\<open>SQ-05-06-24-0007\<close>, the handler would reply \<^verbatim>\<open>SQ-05-06-24-0008\<close> on 5 June 2024
  and \<^verbatim>\<open>SQ-06-06-24-0001\<close> on 6 June 2024; and on 31 December 2025 it would reply
  \<^verbatim>\<open>SQ-31-12-25-0001\<close> with no order and \<^verbatim>\<open>SQ-31-12-25-0100\<close> after \<^verbatim>\<open>SQ-31-12-25-0099\<close>.
\<close>

theorem next_order_number_not_generated:
  "next_order_number module_Order today = InternalError ''Order is not defined''
   \<and> (\<forall>latestOrder. next_order_number module_Order today
                       \<noteq> OrderNumber (orderNumber latestOrder today))
   \<and> next_order_number (Some (Inr (Some ''SQ-05-06-24-0007'')))
         \<lparr>getDate = 5, getMonth = 5, getFullYear = 2024\<rparr> = OrderNumber ''SQ-05-06-24-0008''
   \<and> next_order_number (Some (Inr (Some ''SQ-05-06-24-0007'')))
         \<lparr>getDate = 6, getMonth = 5, getFullYear = 2024\<rparr> = OrderNumber ''SQ-06-06-24-0001''
   \<and> next_order_number (Some (Inr None))
         \<lparr>getDate = 31, getMonth = 11, getFullYear = 2025\<rparr> = OrderNumber ''SQ-31-12-25-0001''
   \<and> next_order_number (Some (Inr (Some ''SQ-31-12-25-0099'')))
         \<lparr>getDate = 31, getMonth = 11, getFullYear = 2025\<rparr> = OrderNumber ''SQ-31-12-25-0100''"
  by (simp add: next_order_number_def module_Order_def orderNumber_examples)

section \<open>Properties of the differ\<close>

lemma mset_three_way:
  "filter_mset (\<lambda>x. D x \<and> I x) M + filter_mset (\<lambda>x. I x \<and> \<not> D x) M
     + filter_mset (\<lambda>x. \<not> I x \<and> \<not> D x) M = filter_mset (\<lambda>x. I x \<or> \<not> D x) M"
  by (induction M) auto

text \<open>
  Claim C4. The differ splits a batch by shape: \<open>itemsToDelete\<close> holds exactly the
  descriptors with an id (\<^verbatim>\<open>item.id\<close> is truthy) and the deletion flag,
  \<open>itemsToUpdate\<close> those with an id and no deletion flag, \<open>itemsToInsert\<close> those with
  neither; the three are pairwise disjoint, and together they hold every descriptor of
  the batch other than those with the flag and no id, as often as the batch does.
\<close>

theorem differ_partition:
  "set (itemsToDelete (allItems body)) = {item \<in> set body. has_id item \<and> is_deleted item}
   \<and> set (itemsToUpdate (allItems body)) = {item \<in> set body. has_id item \<and> \<not> is_deleted item}
   \<and> set (itemsToInsert (allItems body)) = {item \<in> set body. \<not> has_id item \<and> \<not> is_deleted item}
   \<and> set (itemsToDelete (allItems body)) \<inter> set (itemsToUpdate (allItems body)) = {}
   \<and> set (itemsToDelete (allItems body)) \<inter> set (itemsToInsert (allItems body)) = {}
   \<and> set (itemsToUpdate (allItems body)) \<inter> set (itemsToInsert (allItems body)) = {}
   \<and> mset (itemsToDelete (allItems body)) + mset (itemsToUpdate (allItems body))
        + mset (itemsToInsert (allItems body))
      = mset (filter (\<lambda>item. has_id item \<or> \<not> is_deleted item) body)"
proof -
  have m: "mset (itemsToDelete (allItems body)) + mset (itemsToUpdate (allItems body))
        + mset (itemsToInsert (allItems body))
      = mset (filter (\<lambda>item. has_id item \<or> \<not> is_deleted item) body)"
    unfolding itemsToDelete_def itemsToUpdate_def itemsToInsert_def allItems_def
    by (simp only: mset_filter mset_sort mset_three_way)
  show ?thesis
    using m by (auto simp: itemsToDelete_def itemsToUpdate_def itemsToInsert_def allItems_def)
qed

theorem differ_partition_witness:
  "itemsToDelete (allItems [new_line, changed_line, removed_line]) = [removed_line]
   \<and> itemsToUpdate (allItems [new_line, changed_line, removed_line]) = [changed_line]
   \<and> itemsToInsert (allItems [new_line, changed_line, removed_line]) = [new_line]
   \<and> {#removed_line#} + {#changed_line#} + {#new_line#}
       = mset [new_line, changed_line, removed_line]"
  using differ_partition[of "[new_line, changed_line, removed_line]"]
  by (simp add: itemsToDelete_def itemsToUpdate_def itemsToInsert_def allItems_def
      new_line_def changed_line_def removed_line_def has_id_def is_deleted_def id_or_zero_def)

section \<open>Properties of the header reconciler\<close>

lemma foldl_override:
  "foldl (\<lambda>details field. case g field of None \<Rightarrow> details | Some v \<Rightarrow> details(field \<mapsto> v)) d fs
     = (\<lambda>k. if k \<in> set fs then (case g k of None \<Rightarrow> d k | Some v \<Rightarrow> Some v) else d k)"
proof (induction fs arbitrary: d)
  case Nil
  show ?case by simp
next
  case (Cons f fs)
  show ?case
    by (simp add: Cons.IH fun_eq_iff split: option.splits)
qed

lemma defaultOrderDetails_eq:
  "defaultOrderDetails today =
     (\<lambda>field. if field \<in> set commonFields then Some (code_default today field) else None)"
  by (rule ext) (simp add: defaultOrderDetails_def commonFields_def code_default_def spec_default_def totalFields_def)

lemma commonOrderDetails_header_from:
  "commonOrderDetails today items =
     header_from (code_default today) (priorityItem (filter (\<lambda>item. \<not> is_deleted item) items))"
  unfolding commonOrderDetails_def Let_def header_from_def
  by (rule ext) (simp add: foldl_override defaultOrderDetails_eq split: option.splits)

lemma no_id_key: "\<not> has_id x \<Longrightarrow> id_or_zero x = 0"
  by (cases "item_id x") (auto simp: has_id_def id_or_zero_def)

lemma sort_no_ids:
  assumes "\<forall>x \<in> set xs. \<not> has_id x"
  shows "sort_key id_or_zero xs = xs"
proof -
  have "map id_or_zero xs = map (\<lambda>_. 0) xs" using assms by (simp add: no_id_key)
  then have "sorted (map id_or_zero xs)" by (simp add: sorted_iff_nth_mono)
  then show ?thesis by (rule sort_key_id_if_sorted)
qed

lemma find_hd_filter: "find P xs = (case filter P xs of [] \<Rightarrow> None | x # _ \<Rightarrow> Some x)"
  by (induction xs) auto

lemma hd_sort_key:
  assumes "xs \<noteq> []"
  shows "find (\<lambda>x. f x = Min (set (map f xs))) xs = Some (hd (sort_key f xs))"
proof -
  let ?ys = "sort_key f xs"
  obtain y ys' where ys: "?ys = y # ys'"
    using assms by (cases ?ys) (auto dest: arg_cong[where f = length])
  have srt: "sorted (map f ?ys)" by simp
  have yin: "y \<in> set xs" using ys by (metis list.set_intros(1) set_sort)
  have "\<forall>x \<in> set xs. f y \<le> f x"
  proof
    fix x assume "x \<in> set xs"
    then have "x \<in> set ?ys" by simp
    then show "f y \<le> f x" using srt unfolding ys by auto
  qed
  then have m: "Min (set (map f xs)) = f y"
    using yin by (intro Min_eqI) auto
  have "filter (\<lambda>x. f x = f y) xs = filter (\<lambda>x. f x = f y) ?ys"
    by (simp add: sort_key_stable)
  also have "\<dots> = y # filter (\<lambda>x. f x = f y) ys'" unfolding ys by simp
  finally show ?thesis
    unfolding m by (simp add: find_hd_filter ys)
qed

lemma priorityItem_sorted:
  "priorityItem (filter (\<lambda>item. \<not> is_deleted item) (allItems batch)) = least_id_source batch"
proof -
  let ?V = "filter (\<lambda>item. \<not> is_deleted item) batch"
  let ?W = "filter has_id ?V"
  have v: "filter (\<lambda>item. \<not> is_deleted item) (allItems batch) = sort_key id_or_zero ?V"
    by (simp add: allItems_def filter_sort)
  show ?thesis
  proof (cases "?W = []")
    case True
    then have "\<forall>x \<in> set ?V. \<not> has_id x" by (auto simp: filter_empty_conv)
    then have s: "sort_key id_or_zero ?V = ?V" by (rule sort_no_ids)
    have "find has_id ?V = None" using True by (simp add: find_hd_filter)
    then show ?thesis
      using True by (simp add: v s priorityItem_def least_id_source_def Let_def)
  next
    case False
    have fw: "filter has_id (sort_key id_or_zero ?V) = sort_key id_or_zero ?W"
      by (simp add: filter_sort)
    have ne: "sort_key id_or_zero ?W \<noteq> []"
      using False by (metis length_0_conv length_sort)
    have "find has_id (sort_key id_or_zero ?V) = Some (hd (sort_key id_or_zero ?W))"
      using ne by (simp add: find_hd_filter fw split: list.splits)
    then show ?thesis
      using False hd_sort_key[OF False, of id_or_zero]
      by (simp add: v priorityItem_def least_id_source_def Let_def)
  qed
qed

text \<open>
  Claim C5, amended. The header fields the handler resolves are those of the amended
  reference: the source is the non-deleted descriptor with the least id among those that
  carry one (the first of the batch as the handler has sorted it), or the first
  non-deleted descriptor when none carries an id; each of the fourteen header fields is
  the source's value when the source has the key, and otherwise the default, which is
  \<^verbatim>\<open>Sales Order\<close> for \<^verbatim>\<open>voucher_type\<close>, \<^verbatim>\<open>pending\<close> for the status, the current date
  for the date, zero for the totals and the empty string for the other fields.
\<close>

theorem header_resolution:
  "commonOrderDetails today (allItems batch) = amended_header today batch"
  by (simp add: commonOrderDetails_header_from priorityItem_sorted amended_header_def)

theorem header_resolution_witness:
  "commonOrderDetails ''2024-06-05'' (allItems [line5, new_line, line3]) ''status'' = Some (JStr ''b'')
   \<and> commonOrderDetails ''2024-06-05'' (allItems [line5, new_line, line3]) ''voucher_type'' = Some (JStr ''Sales Order'')"
  using header_resolution[of "''2024-06-05''" "[line5, new_line, line3]"]
  by (simp add: amended_header_def header_from_def least_id_source_def line5_def line3_def new_line_def
      is_deleted_def has_id_def id_or_zero_def commonFields_def code_default_def)

text \<open>
  Claim C5 as worded fails twice: with no \<^verbatim>\<open>voucher_type\<close> in the source the resolved
  value is \<^verbatim>\<open>Sales Order\<close>, not the empty string; and of two descriptors with ids 5 and
  3, in this order, the handler takes the header from the one with id 3.
\<close>

theorem header_resolution_counterexample:
  "commonOrderDetails ''2024-06-05'' (allItems [bare_line]) \<noteq> spec_header ''2024-06-05'' [bare_line]
   \<and> commonOrderDetails ''2024-06-05'' (allItems [line5, line3]) \<noteq> spec_header ''2024-06-05'' [line5, line3]"
proof -
  have a: "commonOrderDetails ''2024-06-05'' (allItems [bare_line]) ''voucher_type'' = Some (JStr ''Sales Order'')"
    by (simp add: commonOrderDetails_header_from allItems_def bare_line_def is_deleted_def has_id_def priorityItem_def
        header_from_def commonFields_def code_default_def)
  have b: "spec_header ''2024-06-05'' [bare_line] ''voucher_type'' = Some (JStr '''')"
    by (simp add: spec_header_def spec_source_def bare_line_def is_deleted_def has_id_def
        header_from_def commonFields_def spec_default_def totalFields_def)
  have c: "commonOrderDetails ''2024-06-05'' (allItems [line5, line3]) ''status'' = Some (JStr ''b'')"
    by (simp add: commonOrderDetails_header_from allItems_def line5_def line3_def is_deleted_def has_id_def priorityItem_def
        header_from_def commonFields_def id_or_zero_def)
  have d: "spec_header ''2024-06-05'' [line5, line3] ''status'' = Some (JStr ''a'')"
    by (simp add: spec_header_def spec_source_def line5_def line3_def is_deleted_def has_id_def
        header_from_def commonFields_def)
  have "commonOrderDetails ''2024-06-05'' (allItems [bare_line]) ''voucher_type''
          \<noteq> spec_header ''2024-06-05'' [bare_line] ''voucher_type''"
    unfolding a b by simp
  moreover have "commonOrderDetails ''2024-06-05'' (allItems [line5, line3]) ''status''
          \<noteq> spec_header ''2024-06-05'' [line5, line3] ''status''"
    unfolding c d by simp
  ultimately show ?thesis by metis
qed

section \<open>Properties of the transaction orchestrator\<close>

lemma allItems_Nil [simp]: "allItems body = [] \<longleftrightarrow> body = []"
  by (metis allItems_def length_0_conv length_sort)

lemma rows_ROLLBACK [simp]: "rows (ROLLBACK snap s) = rows snap"
  by (simp add: ROLLBACK_def)

lemma rows_BEGIN [simp]: "rows (BEGIN s) = rows s"
  by (simp add: BEGIN_def)

lemma put_blank:
  "order_no = [] \<or> trim order_no = [] \<Longrightarrow>
     put_orders_by_number accepts today order_no body s = (BadRequest ''Order Number is required'', s)"
  by (simp add: put_orders_by_number_def)

lemma put_empty:
  "\<not> (order_no = [] \<or> trim order_no = []) \<Longrightarrow>
     put_orders_by_number accepts today order_no [] s = (BadRequest ''No data provided'', s)"
  by (simp add: put_orders_by_number_def)

lemma put_missing:
  assumes "\<not> (order_no = [] \<or> trim order_no = [])" "body \<noteq> []"
    and "\<not> orderExists order_no (rows s)" "itemsToInsert (allItems body) = []"
  shows "put_orders_by_number accepts today order_no body s =
           (Failed OrderMissing, ROLLBACK (BEGIN s) (BEGIN s))"
  using assms by (simp add: put_orders_by_number_def Let_def)

lemma put_run:
  assumes "\<not> (order_no = [] \<or> trim order_no = [])" "body \<noteq> []"
    and "orderExists order_no (rows s) \<or> itemsToInsert (allItems body) \<noteq> []"
  shows "put_orders_by_number accepts today order_no body s =
           (case run (phases accepts today order_no (allItems body) (orderExists order_no (rows s))) (BEGIN s) of
              (Some e, s') \<Rightarrow> (Failed e, ROLLBACK (BEGIN s) s')
            | (None, s') \<Rightarrow>
                (Succeeded (success order_no (allItems body)
                   (commonOrderDetails today (allItems body)) (rows s')), s'))"
  using assms by (auto simp add: put_orders_by_number_def Let_def)

lemma run_append_error:
  "run pre s = (None, s1) \<Longrightarrow> phase s1 = (Some e, s2) \<Longrightarrow> run (pre @ phase # post) s = (Some e, s2)"
  by (induction pre arbitrary: s) (auto split: prod.splits option.splits)

lemma put_not_succeeded_rows:
  assumes "put_orders_by_number accepts today order_no body s = (reply, s')"
    and "\<And>resp. reply \<noteq> Succeeded resp"
  shows "rows s' = rows s"
proof (cases "order_no = [] \<or> trim order_no = [] \<or> body = []")
  case True
  then show ?thesis using assms(1) put_blank[of order_no accepts today body s] put_empty[of order_no accepts today s]
    by (cases "order_no = [] \<or> trim order_no = []") auto
next
  case nb: False
  show ?thesis
  proof (cases "orderExists order_no (rows s) \<or> itemsToInsert (allItems body) \<noteq> []")
    case False
    then show ?thesis using put_missing[of order_no body s accepts today] nb assms(1) by auto
  next
    case True
    show ?thesis
      using put_run[of order_no body s accepts today] nb True assms
      by (auto split: prod.splits option.splits)
  qed
qed

text \<open>
  Claim C1. Whenever the reply is not a success, the rows of the store after the request
  are the rows before it. In particular, when the request passes the checks made before
  the transaction, and any of the four phases (delete, update, insert, header broadcast)
  throws after the phases before it have run, the reply is the failure with that error,
  the store is the one \<^verbatim>\<open>ROLLBACK\<close> leaves, and its rows are the rows before the request,
  whatever the phases had written.
\<close>

theorem failure_rolls_back:
  assumes "put_orders_by_number accepts today order_no body s = (reply, s')"
  shows "((\<forall>resp. reply \<noteq> Succeeded resp) \<longrightarrow> rows s' = rows s)
       \<and> (\<forall>pre phase post s1 e s2.
            \<not> (order_no = [] \<or> trim order_no = []) \<and> body \<noteq> []
            \<and> (orderExists order_no (rows s) \<or> itemsToInsert (allItems body) \<noteq> [])
            \<and> phases accepts today order_no (allItems body) (orderExists order_no (rows s))
                = pre @ phase # post
            \<and> run pre (BEGIN s) = (None, s1) \<and> phase s1 = (Some e, s2)
            \<longrightarrow> reply = Failed e \<and> s' = ROLLBACK (BEGIN s) s2 \<and> rows s' = rows s)"
proof (intro conjI allI impI)
  assume "\<forall>resp. reply \<noteq> Succeeded resp"
  then show "rows s' = rows s" using put_not_succeeded_rows[OF assms] by blast
next
  fix pre phase post s1 e s2
  assume a: "\<not> (order_no = [] \<or> trim order_no = []) \<and> body \<noteq> []
            \<and> (orderExists order_no (rows s) \<or> itemsToInsert (allItems body) \<noteq> [])
            \<and> phases accepts today order_no (allItems body) (orderExists order_no (rows s))
                = pre @ phase # post
            \<and> run pre (BEGIN s) = (None, s1) \<and> phase s1 = (Some e, s2)"
  then have r: "run (phases accepts today order_no (allItems body) (orderExists order_no (rows s))) (BEGIN s)
               = (Some e, s2)"
    using run_append_error[of pre "BEGIN s" s1 phase e s2 post] by simp
  have p: "put_orders_by_number accepts today order_no body s = (Failed e, ROLLBACK (BEGIN s) s2)"
    using put_run[of order_no body s accepts today] a r by simp
  show "reply = Failed e" using p assms by simp
  show "s' = ROLLBACK (BEGIN s) s2" using p assms by simp
  then show "rows s' = rows s" by simp
qed

subsection \<open>What the statements leave unchanged\<close>

lemma id_not_allowed: "''id'' \<notin> set allowedFields" "''order_no'' \<notin> set allowedFields"
  by (simp_all add: allowedFields_def)

lemma id_not_common: "''id'' \<notin> set commonFields" "''order_no'' \<notin> set commonFields"
  by (simp_all add: commonFields_def)

lemma update_row_key [simp]:
  "update_row order_no i flds r ''id'' = r ''id''"
  "update_row order_no i flds r ''order_no'' = r ''order_no''"
  by (simp_all add: update_row_def filteredFields_def map_add_def restrict_map_def id_not_allowed)

lemma broadcast_row_key [simp]:
  "broadcast_row order_no common r ''id'' = r ''id''"
  "broadcast_row order_no common r ''order_no'' = r ''order_no''"
  by (simp_all add: broadcast_row_def map_add_def restrict_map_def id_not_common)

lemma update_row_preds [simp]:
  "row_has_id j (update_row order_no i flds r) = row_has_id j r"
  "has_order_no n (update_row order_no i flds r) = has_order_no n r"
  "id_in ids (update_row order_no i flds r) = id_in ids r"
  by (simp_all add: row_has_id_def has_order_no_def id_in_def)

lemma broadcast_row_preds [simp]:
  "row_has_id j (broadcast_row order_no common r) = row_has_id j r"
  "has_order_no n (broadcast_row order_no common r) = has_order_no n r"
  "id_in ids (broadcast_row order_no common r) = id_in ids r"
  by (simp_all add: row_has_id_def has_order_no_def id_in_def)

text \<open>The rows an update statement or the update phase leaves are the rows it found, each
  with some columns other than \<^verbatim>\<open>id\<close> and \<^verbatim>\<open>order_no\<close> overwritten.\<close>

lemma same_key_id: "same_key (\<lambda>r. r)"
  by (simp add: same_key_def)

lemma same_key_comp: "same_key f \<Longrightarrow> same_key g \<Longrightarrow> same_key (g \<circ> f)"
  by (simp add: same_key_def)

lemma update_item_map:
  "\<exists>f. same_key f \<and> snd (update_item accepts order_no ex update rs) = map f rs"
proof (cases "snd (update_item accepts order_no ex update rs) = rs")
  case True
  then show ?thesis using same_key_id by (intro exI[of _ "\<lambda>r. r"]) simp
next
  case False
  then have "snd (update_item accepts order_no ex update rs)
               = map (update_row order_no (id_or_zero update) (item_fields update)) rs"
    by (auto simp: update_item_def Let_def split: if_splits)
  moreover have "same_key (update_row order_no (id_or_zero update) (item_fields update))"
    by (simp add: same_key_def)
  ultimately show ?thesis by blast
qed




text \<open>A successful run of the four phases, phase by phase.\<close>

lemma run_phases_None:
  assumes "run (phases accepts today order_no items ex) s0 = (None, s')"
  shows "\<exists>rs1 rs2 rs3 n3.
           delete_phase order_no ex (itemsToDelete items) (rows s0) = (None, rs1)
         \<and> update_phase accepts order_no ex (itemsToUpdate items) rs1 = (None, rs2)
         \<and> insert_phase accepts order_no (commonOrderDetails today items) (itemsToInsert items)
              (rs2, seq s0) = (None, (rs3, n3))
         \<and> broadcast_phase accepts order_no ex (itemsToInsert items)
              (commonOrderDetails today items) rs3 = (None, rows s')
         \<and> seq s' = n3 \<and> transactions s' = transactions s0"
  using assms
  by (auto simp: phases_def on_rows_def on_rows_seq_def Let_def split: prod.splits option.splits)

lemma put_Succeeded:
  assumes "put_orders_by_number accepts today order_no body s = (Succeeded resp, s')"
  shows "\<not> (order_no = [] \<or> trim order_no = []) \<and> body \<noteq> []
       \<and> (orderExists order_no (rows s) \<or> itemsToInsert (allItems body) \<noteq> [])
       \<and> run (phases accepts today order_no (allItems body) (orderExists order_no (rows s))) (BEGIN s)
           = (None, s')
       \<and> resp = success order_no (allItems body) (commonOrderDetails today (allItems body)) (rows s')"
  using assms
  by (auto simp: put_orders_by_number_def Let_def split: if_splits prod.splits option.splits)

subsection \<open>The example request, phase by phase\<close>

lemmas differ_defs = allItems_def itemsToInsert_def itemsToUpdate_def itemsToDelete_def
  has_id_def is_deleted_def id_or_zero_def

lemmas row_preds = row_has_id_def has_order_no_def id_in_def order_by_id_def

lemmas example_defs = new_line_def changed_line_def removed_line_def row10_def row11_def
  row20_def

lemma accepted_True [simp]: "accepted (\<lambda>_ _. True) keys obj"
  by (simp add: accepted_def list_all_iff split: option.splits)

lemma nonblank_example:
  "\<not> (''SQ-01-01-24-0001'' = [] \<or> trim ''SQ-01-01-24-0001'' = [])"
  by (simp add: trim_unchanged leading_space_def trailing_space_def white_space_def)

lemma example_items:
  "allItems [new_line, changed_line, removed_line] = [new_line, changed_line, removed_line]"
  "itemsToDelete [new_line, changed_line, removed_line] = [removed_line]"
  "itemsToUpdate [new_line, changed_line, removed_line] = [changed_line]"
  "itemsToInsert [new_line, changed_line, removed_line] = [new_line]"
  by (simp_all add: differ_defs example_defs)

lemma example_exists: "orderExists ''SQ-01-01-24-0001'' (rows store0)"
  by (simp add: orderExists_def store0_def row_preds example_defs)

lemma example_delete:
  "delete_phase ''SQ-01-01-24-0001'' True [removed_line] [row10, row11, row20] = (None, [row10, row20])"
  by (simp add: delete_phase_def row_preds example_defs id_or_zero_def)

lemma example_update:
  "update_phase (\<lambda>_ _. True) ''SQ-01-01-24-0001'' True [changed_line] [row10, row20]
     = (None, [row10(''quantity'' \<mapsto> JNum 5), row20])"
proof -
  have "update_row ''SQ-01-01-24-0001'' 10 [''quantity'' \<mapsto> JNum 5] row10 = row10(''quantity'' \<mapsto> JNum 5)"
    by (rule ext) (simp add: update_row_def row_preds row10_def filteredFields_def allowedFields_def map_add_def restrict_map_def)
  moreover have "update_row ''SQ-01-01-24-0001'' 10 [''quantity'' \<mapsto> JNum 5] row20 = row20"
    by (simp add: update_row_def row_preds row20_def)
  moreover have "\<not> no_valid_fields [''quantity'' \<mapsto> JNum 5]"
    by (simp add: no_valid_fields_def allowedFields_def)
  moreover have "itemCheck ''SQ-01-01-24-0001'' 10 [row10, row20] = None"
    by (simp add: itemCheck_def row_preds row10_def row20_def)
  moreover have "filter (\<lambda>r. row_has_id 10 r \<and> has_order_no ''SQ-01-01-24-0001'' r) [row10, row20] = [row10]"
    by (simp add: row_preds row10_def row20_def)
  ultimately show ?thesis
    by (simp add: update_item_def changed_line_def id_or_zero_def)
qed

lemma example_header:
  "commonOrderDetails ''2024-01-01'' [new_line, changed_line, removed_line] = defaultOrderDetails ''2024-01-01''"
proof -
  have "filter (\<lambda>item. \<not> is_deleted item) [new_line, changed_line, removed_line] = [new_line, changed_line]"
    by (simp add: is_deleted_def example_defs)
  moreover have "priorityItem [new_line, changed_line] = Some changed_line"
    by (simp add: priorityItem_def has_id_def example_defs)
  ultimately show ?thesis
    by (simp add: commonOrderDetails_def changed_line_def commonFields_def)
qed

lemma example_insert:
  "insert_phase (\<lambda>_ _. True) ''SQ-01-01-24-0001'' common [new_line] (rs, 21)
     = (None, (rs @ [(insertItem ''SQ-01-01-24-0001'' common new_line)(''id'' \<mapsto> JNum 21)], 22))"
  by (simp add: insert_phase_def)

lemma example_broadcast:
  "broadcast_phase (\<lambda>_ _. True) ''SQ-01-01-24-0001'' True toInsert common rs
     = (None, map (broadcast_row ''SQ-01-01-24-0001'' common) rs)"
  by (simp add: broadcast_phase_def)

lemma example_run:
  "put_orders_by_number (\<lambda>_ _. True) ''2024-01-01'' ''SQ-01-01-24-0001'' example_batch store0
   = (Succeeded (success ''SQ-01-01-24-0001'' example_batch (defaultOrderDetails ''2024-01-01'')
        (rows store1)), store1)"
proof -
  have r: "rows store0 = [row10, row11, row20]" "seq (BEGIN store0) = 21"
    by (simp_all add: store0_def BEGIN_def)
  have "run (phases (\<lambda>_ _. True) ''2024-01-01'' ''SQ-01-01-24-0001'' example_batch True)
          (BEGIN store0) = (None, store1)"
    unfolding example_batch_def
    by (simp add: phases_def Let_def on_rows_def on_rows_seq_def example_items example_header r
        example_delete example_update example_insert example_broadcast del: update_phase.simps)
       (simp add: store0_def store1_def BEGIN_def)
  then show ?thesis
    using example_exists nonblank_example
    by (simp add: put_run example_items example_header example_batch_def)
qed

subsection \<open>A request that fails in the update phase\<close>

lemma failing_update:
  "update_phase (\<lambda>_ _. True) ''SQ-01-01-24-0001'' True [changed_line, foreign_line] [row10, row11, row20]
     = (Some (ItemForeign 20 (Some (JStr ''SQ-01-01-24-0002''))),
        [row10(''quantity'' \<mapsto> JNum 5), row11, row20])"
proof -
  have "update_row ''SQ-01-01-24-0001'' 10 [''quantity'' \<mapsto> JNum 5] row10 = row10(''quantity'' \<mapsto> JNum 5)"
    by (rule ext) (simp add: update_row_def row_preds row10_def filteredFields_def allowedFields_def map_add_def restrict_map_def)
  moreover have "update_row ''SQ-01-01-24-0001'' 10 [''quantity'' \<mapsto> JNum 5] row20 = row20"
    "update_row ''SQ-01-01-24-0001'' 10 [''quantity'' \<mapsto> JNum 5] row11 = row11"
    by (simp_all add: update_row_def row_preds row20_def row11_def)
  moreover have "\<not> no_valid_fields [''quantity'' \<mapsto> JNum 5]"
    by (simp add: no_valid_fields_def allowedFields_def)
  moreover have "itemCheck ''SQ-01-01-24-0001'' 10 [row10, row11, row20] = None"
    by (simp add: itemCheck_def row_preds row10_def row11_def row20_def)
  moreover have "itemCheck ''SQ-01-01-24-0001'' 20 [row10(''quantity'' \<mapsto> JNum 5), row11, row20]
      = Some (ItemForeign 20 (Some (JStr ''SQ-01-01-24-0002'')))"
    by (simp add: itemCheck_def row_preds row10_def row11_def row20_def)
  moreover have "filter (\<lambda>r. row_has_id 10 r \<and> has_order_no ''SQ-01-01-24-0001'' r) [row10, row11, row20] = [row10]"
    by (simp add: row_preds row10_def row11_def row20_def)
  ultimately show ?thesis
    by (simp add: update_item_def changed_line_def foreign_line_def id_or_zero_def)
qed

theorem failure_rolls_back_witness:
  "put_orders_by_number (\<lambda>_ _. True) ''2024-01-01'' ''SQ-01-01-24-0001'' [changed_line, foreign_line] store0
     = (Failed (ItemForeign 20 (Some (JStr ''SQ-01-01-24-0002''))),
        \<lparr>rows = [row10, row11, row20], seq = 21, transactions = 1\<rparr>)
   \<and> snd (update_phase (\<lambda>_ _. True) ''SQ-01-01-24-0001'' True [changed_line, foreign_line] (rows store0))
       = [row10(''quantity'' \<mapsto> JNum 5), row11, row20]"
proof -
  let ?body = "[changed_line, foreign_line]"
  let ?put = "put_orders_by_number (\<lambda>_ _. True) ''2024-01-01'' ''SQ-01-01-24-0001'' ?body store0"
  let ?e = "ItemForeign 20 (Some (JStr ''SQ-01-01-24-0002''))"
  let ?s2 = "(BEGIN store0)\<lparr>rows := [row10(''quantity'' \<mapsto> JNum 5), row11, row20]\<rparr>"
  have items: "allItems ?body = ?body" "itemsToDelete ?body = []" "itemsToUpdate ?body = ?body"
    "itemsToInsert ?body = []"
    by (simp_all add: differ_defs changed_line_def foreign_line_def)
  have r: "rows store0 = [row10, row11, row20]" by (simp add: store0_def)
  have ph: "phases (\<lambda>_ _. True) ''2024-01-01'' ''SQ-01-01-24-0001'' (allItems ?body)
              (orderExists ''SQ-01-01-24-0001'' (rows store0))
            = [on_rows (delete_phase ''SQ-01-01-24-0001'' True [])]
              @ on_rows (update_phase (\<lambda>_ _. True) ''SQ-01-01-24-0001'' True ?body)
              # [on_rows_seq (insert_phase (\<lambda>_ _. True) ''SQ-01-01-24-0001''
                   (commonOrderDetails ''2024-01-01'' ?body) []),
                 on_rows (broadcast_phase (\<lambda>_ _. True) ''SQ-01-01-24-0001'' True []
                   (commonOrderDetails ''2024-01-01'' ?body))]"
    using example_exists by (simp add: phases_def Let_def items)
  have pre: "run [on_rows (delete_phase ''SQ-01-01-24-0001'' True [])] (BEGIN store0) = (None, BEGIN store0)"
    by (simp add: on_rows_def delete_phase_def)
  have fail: "on_rows (update_phase (\<lambda>_ _. True) ''SQ-01-01-24-0001'' True ?body) (BEGIN store0)
                = (Some ?e, ?s2)"
    by (simp add: on_rows_def r failing_update del: update_phase.simps)
  have p2: "?body \<noteq> []" by simp
  have p3: "orderExists ''SQ-01-01-24-0001'' (rows store0) \<or> itemsToInsert (allItems ?body) \<noteq> []"
    using example_exists by simp
  note rule = failure_rolls_back[OF surjective_pairing, THEN conjunct2, rule_format,
      where pre = "[on_rows (delete_phase ''SQ-01-01-24-0001'' True [])]"
        and phase = "on_rows (update_phase (\<lambda>_ _. True) ''SQ-01-01-24-0001'' True ?body)"
        and ?s1.0 = "BEGIN store0" and e = ?e and ?s2.0 = ?s2 and s = store0
        and body = ?body and order_no = "''SQ-01-01-24-0001''"]
  have "fst ?put = Failed ?e \<and> snd ?put = ROLLBACK (BEGIN store0) ?s2 \<and> rows (snd ?put) = rows store0"
    apply (rule rule)
    apply (rule conjI, rule nonblank_example)
    apply (rule conjI, rule p2)
    apply (rule conjI, rule p3)
    apply (rule conjI, rule ph)
    apply (rule conjI, rule pre)
    apply (rule fail)
    done
  moreover have "ROLLBACK (BEGIN store0) ?s2 = \<lparr>rows = [row10, row11, row20], seq = 21, transactions = 1\<rparr>"
    by (simp add: ROLLBACK_def BEGIN_def store0_def)
  ultimately show ?thesis
    by (simp add: r failing_update prod_eq_iff del: update_phase.simps)
qed

subsection \<open>The header broadcast and the frame of a request\<close>

lemma commonOrderDetails_defined:
  "field \<in> set commonFields \<Longrightarrow> commonOrderDetails today items field \<noteq> None"
  by (simp add: commonOrderDetails_header_from header_from_def split: option.splits)

lemma broadcast_row_header:
  assumes "has_order_no order_no (broadcast_row order_no common r)" "field \<in> set commonFields"
    "common field \<noteq> None"
  shows "broadcast_row order_no common r field = common field"
  using assms by (auto simp: broadcast_row_def map_add_def restrict_map_def has_order_no_def split: option.splits)

lemma broadcast_phase_None:
  assumes "broadcast_phase accepts order_no ex toInsert common rs = (None, rs')" "ex \<or> toInsert \<noteq> []"
  shows "rs' = map (broadcast_row order_no common) rs"
  using assms by (auto simp: broadcast_phase_def split: if_splits)

text \<open>
  Claim C2. After a request that succeeds, every row of the store with the requested
  \<^verbatim>\<open>order_no\<close> has, in each of the fourteen header fields, the value the header
  reconciler resolved; so any two such rows agree on every header field, whatever the
  delete, update and insert phases wrote. The rows returned in the reply are rows of
  the store with that \<^verbatim>\<open>order_no\<close>.
\<close>

theorem header_identical_after_success:
  assumes "put_orders_by_number accepts today order_no body s = (Succeeded resp, s')"
  shows "(\<forall>r \<in> set (rows s'). has_order_no order_no r \<longrightarrow>
            (\<forall>field \<in> set commonFields. r field = commonOrderDetails today (allItems body) field))
       \<and> (\<forall>r1 \<in> set (rows s'). \<forall>r2 \<in> set (rows s').
            has_order_no order_no r1 \<and> has_order_no order_no r2 \<longrightarrow>
            (\<forall>field \<in> set commonFields. r1 field = r2 field))
       \<and> (\<forall>r \<in> set (data resp). r \<in> set (rows s') \<and> has_order_no order_no r)"
proof -
  let ?common = "commonOrderDetails today (allItems body)"
  let ?ex = "orderExists order_no (rows s)"
  from put_Succeeded[OF assms]
  have go: "?ex \<or> itemsToInsert (allItems body) \<noteq> []"
    and run: "run (phases accepts today order_no (allItems body) ?ex) (BEGIN s) = (None, s')"
    and resp: "resp = success order_no (allItems body) ?common (rows s')"
    by simp_all
  from run_phases_None[OF run] obtain rs3 where
    "broadcast_phase accepts order_no ?ex (itemsToInsert (allItems body)) ?common rs3 = (None, rows s')"
    by blast
  then have rs: "rows s' = map (broadcast_row order_no ?common) rs3"
    using go by (rule broadcast_phase_None)
  have h: "r field = ?common field"
    if "r \<in> set (rows s')" "has_order_no order_no r" "field \<in> set commonFields" for r field
  proof -
    from that(1)[unfolded rs] obtain r0 where "r = broadcast_row order_no ?common r0" by auto
    then show ?thesis
      using that(2,3) broadcast_row_header commonOrderDetails_defined by blast
  qed
  have d: "set (data resp) = {r \<in> set (rows s'). has_order_no order_no r}"
    by (simp add: resp success_def Let_def)
  have h2: "r1 field = r2 field"
    if "r1 \<in> set (rows s')" "has_order_no order_no r1" "r2 \<in> set (rows s')"
       "has_order_no order_no r2" "field \<in> set commonFields" for r1 r2 field
    using h[OF that(1,2,5)] h[OF that(3,4,5)] by simp
  show ?thesis using h h2 d by blast
qed


lemma example_data:
  "data (success ''SQ-01-01-24-0001'' example_batch common (rows store1))
     = [broadcast_row ''SQ-01-01-24-0001'' (defaultOrderDetails ''2024-01-01'') (row10(''quantity'' \<mapsto> JNum 5)),
        broadcast_row ''SQ-01-01-24-0001'' (defaultOrderDetails ''2024-01-01'')
          ((insertItem ''SQ-01-01-24-0001'' (defaultOrderDetails ''2024-01-01'') new_line)(''id'' \<mapsto> JNum 21))]"
  by (simp add: success_def store1_def Let_def row_preds row10_def row20_def insertItem_def)

theorem header_identical_after_success_witness:
  "\<exists>resp s'. put_orders_by_number (\<lambda>_ _. True) ''2024-01-01'' ''SQ-01-01-24-0001'' example_batch store0
       = (Succeeded resp, s')
     \<and> length (data resp) = 2
     \<and> list_all (\<lambda>r. r ''status'' = Some (JStr ''pending'')
                    \<and> r ''voucher_type'' = Some (JStr ''Sales Order'')) (data resp)"
proof -
  let ?resp = "success ''SQ-01-01-24-0001'' example_batch (defaultOrderDetails ''2024-01-01'') (rows store1)"
  note th = header_identical_after_success[OF example_run]
  have c: "commonOrderDetails ''2024-01-01'' (allItems example_batch) = defaultOrderDetails ''2024-01-01''"
    by (simp add: example_batch_def example_items example_header)
  have in_rows: "\<forall>r \<in> set (data ?resp). r \<in> set (rows store1) \<and> has_order_no ''SQ-01-01-24-0001'' r"
    using th by blast
  have f: "''status'' \<in> set commonFields" "''voucher_type'' \<in> set commonFields"
    by (simp_all add: commonFields_def)
  have "r ''status'' = Some (JStr ''pending'') \<and> r ''voucher_type'' = Some (JStr ''Sales Order'')"
    if "r \<in> set (data ?resp)" for r
  proof -
    have "r \<in> set (rows store1)" "has_order_no ''SQ-01-01-24-0001'' r" using in_rows that by auto
    then have "r ''status'' = defaultOrderDetails ''2024-01-01'' ''status''"
      "r ''voucher_type'' = defaultOrderDetails ''2024-01-01'' ''voucher_type''"
      using th f unfolding c by blast+
    then show ?thesis by (simp add: defaultOrderDetails_def)
  qed
  then have "list_all (\<lambda>r. r ''status'' = Some (JStr ''pending'')
                    \<and> r ''voucher_type'' = Some (JStr ''Sales Order'')) (data ?resp)"
    by (simp add: list_all_iff)
  moreover have "length (data ?resp) = 2" by (simp add: example_data)
  ultimately show ?thesis using example_run by blast
qed


subsection \<open>A deletion flag without an id\<close>

lemma filter_allItems_drop:
  assumes "\<not> P d"
  shows "filter P (allItems (xs @ d # ys)) = filter P (allItems (xs @ ys))"
  using assms by (simp add: allItems_def filter_sort)

lemma differ_drop:
  assumes "\<not> has_id d" "is_deleted d"
  shows "itemsToInsert (allItems (xs @ d # ys)) = itemsToInsert (allItems (xs @ ys))"
    and "itemsToUpdate (allItems (xs @ d # ys)) = itemsToUpdate (allItems (xs @ ys))"
    and "itemsToDelete (allItems (xs @ d # ys)) = itemsToDelete (allItems (xs @ ys))"
    and "commonOrderDetails today (allItems (xs @ d # ys)) = commonOrderDetails today (allItems (xs @ ys))"
  using assms
  by (simp_all add: itemsToInsert_def itemsToUpdate_def itemsToDelete_def commonOrderDetails_def
      filter_allItems_drop)

text \<open>
  Claim C10, amended. In a batch that holds at least one other descriptor, a descriptor
  with the deletion flag and no id changes nothing: the reply (the rows returned, the
  counts of operations, the header details) and the store after the request are those of
  the batch without it. It is in none of the three sets of the differ, and the header
  fields resolved with it and without it are the same.
\<close>

theorem flag_without_id_ignored:
  assumes "\<not> has_id d" "is_deleted d" "xs @ ys \<noteq> []"
  shows "put_orders_by_number accepts today order_no (xs @ d # ys) s
           = put_orders_by_number accepts today order_no (xs @ ys) s
       \<and> d \<notin> set (itemsToInsert (allItems (xs @ d # ys)))
       \<and> d \<notin> set (itemsToUpdate (allItems (xs @ d # ys)))
       \<and> d \<notin> set (itemsToDelete (allItems (xs @ d # ys)))
       \<and> commonOrderDetails today (allItems (xs @ d # ys))
           = commonOrderDetails today (allItems (xs @ ys))"
proof -
  have p: "phases accepts today order_no (allItems (xs @ d # ys)) ex
         = phases accepts today order_no (allItems (xs @ ys)) ex" for ex
    by (simp add: phases_def differ_drop[OF assms(1,2)])
  have su: "success order_no (allItems (xs @ d # ys)) c rs = success order_no (allItems (xs @ ys)) c rs"
    for c rs
    by (simp add: success_def differ_drop[OF assms(1,2)])
  note dd = differ_drop[OF assms(1,2)]
  have ne: "xs @ d # ys \<noteq> []" by simp
  have "put_orders_by_number accepts today order_no (xs @ d # ys) s
           = put_orders_by_number accepts today order_no (xs @ ys) s"
  proof (cases "order_no = [] \<or> trim order_no = []")
    case True
    then show ?thesis by (simp only: put_blank)
  next
    case nb: False
    show ?thesis
    proof (cases "orderExists order_no (rows s) \<or> itemsToInsert (allItems (xs @ ys)) \<noteq> []")
      case True
      then have "orderExists order_no (rows s) \<or> itemsToInsert (allItems (xs @ d # ys)) \<noteq> []"
        by (simp only: dd)
      from put_run[OF nb ne this] put_run[OF nb assms(3) True] show ?thesis
        by (simp only: p su dd)
    next
      case False
      then have f: "\<not> orderExists order_no (rows s)" "itemsToInsert (allItems (xs @ ys)) = []"
        by simp_all
      have f': "itemsToInsert (allItems (xs @ d # ys)) = []" using f(2) by (simp only: dd)
      from put_missing[OF nb ne f(1) f'] put_missing[OF nb assms(3) f] show ?thesis by simp
    qed
  qed
  then show ?thesis
    using assms(1,2) dd(4) by (simp add: itemsToInsert_def itemsToUpdate_def itemsToDelete_def)
qed

theorem flag_without_id_ignored_witness:
  "put_orders_by_number (\<lambda>_ _. True) ''2024-01-01'' ''SQ-01-01-24-0001''
     [new_line, flag_only, changed_line, removed_line] store0
   = (Succeeded (success ''SQ-01-01-24-0001'' example_batch (defaultOrderDetails ''2024-01-01'')
        (rows store1)), store1)
   \<and> inserted (success ''SQ-01-01-24-0001'' example_batch (defaultOrderDetails ''2024-01-01'') (rows store1)) = 1
   \<and> updated (success ''SQ-01-01-24-0001'' example_batch (defaultOrderDetails ''2024-01-01'') (rows store1)) = 1
   \<and> deleted (success ''SQ-01-01-24-0001'' example_batch (defaultOrderDetails ''2024-01-01'') (rows store1)) = 1"
proof -
  have h: "\<not> has_id flag_only" "is_deleted flag_only" "[new_line] @ [changed_line, removed_line] \<noteq> []"
    by (simp_all add: flag_only_def has_id_def is_deleted_def)
  have "put_orders_by_number (\<lambda>_ _. True) ''2024-01-01'' ''SQ-01-01-24-0001''
     ([new_line] @ flag_only # [changed_line, removed_line]) store0
     = put_orders_by_number (\<lambda>_ _. True) ''2024-01-01'' ''SQ-01-01-24-0001'' example_batch store0"
    using flag_without_id_ignored[OF h] by (simp add: example_batch_def)
  then show ?thesis
    by (simp add: example_run) (simp add: success_def example_batch_def example_items)
qed

lemma flag_only_run:
  "put_orders_by_number (\<lambda>_ _. True) ''2024-01-01'' ''SQ-01-01-24-0001'' [flag_only] store0
    = (Succeeded (success ''SQ-01-01-24-0001'' [flag_only] (defaultOrderDetails ''2024-01-01'')
         (map (broadcast_row ''SQ-01-01-24-0001'' (defaultOrderDetails ''2024-01-01'')) (rows store0))),
       \<lparr>rows = map (broadcast_row ''SQ-01-01-24-0001'' (defaultOrderDetails ''2024-01-01'')) (rows store0),
        seq = 21, transactions = 1\<rparr>)"
proof -
  have items: "allItems [flag_only] = [flag_only]" "itemsToDelete [flag_only] = []"
    "itemsToUpdate [flag_only] = []" "itemsToInsert [flag_only] = []"
    by (simp_all add: differ_defs flag_only_def)
  have c: "commonOrderDetails ''2024-01-01'' [flag_only] = defaultOrderDetails ''2024-01-01''"
    by (simp add: commonOrderDetails_def priorityItem_def is_deleted_def flag_only_def)
  have "run (phases (\<lambda>_ _. True) ''2024-01-01'' ''SQ-01-01-24-0001'' [flag_only] True) (BEGIN store0)
     = (None, \<lparr>rows = map (broadcast_row ''SQ-01-01-24-0001'' (defaultOrderDetails ''2024-01-01'')) (rows store0),
        seq = 21, transactions = 1\<rparr>)"
    by (simp add: phases_def Let_def on_rows_def on_rows_seq_def items c delete_phase_def
         insert_phase_def example_broadcast)
       (simp add: store0_def BEGIN_def)
  then show ?thesis
    using example_exists nonblank_example by (simp add: put_run items c)
qed

text \<open>
  Claim C10 as worded fails when the descriptor is the whole batch: without it the batch
  is empty and the reply is a validation error that leaves the store alone; with it the
  request runs, succeeds, and the header broadcast writes the default header to every row
  of the order (the customer name of line 10, unset before, is then the empty string).
\<close>

theorem flag_without_id_ignored_counterexample:
  "put_orders_by_number (\<lambda>_ _. True) ''2024-01-01'' ''SQ-01-01-24-0001'' [] store0
     = (BadRequest ''No data provided'', store0)
   \<and> (\<exists>resp. put_orders_by_number (\<lambda>_ _. True) ''2024-01-01'' ''SQ-01-01-24-0001'' [flag_only] store0
        = (Succeeded resp,
           \<lparr>rows = map (broadcast_row ''SQ-01-01-24-0001'' (defaultOrderDetails ''2024-01-01'')) (rows store0),
            seq = 21, transactions = 1\<rparr>))
   \<and> hd (rows store0) ''customer_name'' = None
   \<and> broadcast_row ''SQ-01-01-24-0001'' (defaultOrderDetails ''2024-01-01'') (hd (rows store0)) ''customer_name''
       = Some (JStr '''')"
proof -
  have "put_orders_by_number (\<lambda>_ _. True) ''2024-01-01'' ''SQ-01-01-24-0001'' [] store0
     = (BadRequest ''No data provided'', store0)"
    using nonblank_example by (simp add: put_empty)
  moreover have "hd (rows store0) ''customer_name'' = None"
    by (simp add: store0_def row10_def)
  moreover have "broadcast_row ''SQ-01-01-24-0001'' (defaultOrderDetails ''2024-01-01'') (hd (rows store0)) ''customer_name''
       = Some (JStr '''')"
    by (simp add: store0_def row10_def broadcast_row_def has_order_no_def map_add_def restrict_map_def
        commonFields_def defaultOrderDetails_def)
  ultimately show ?thesis using flag_only_run by simp
qed

subsection \<open>Ownership of the referenced ids\<close>













subsection \<open>Submitting a batch of updates twice\<close>

lemma update_step_key [simp]:
  "update_step order_no u r ''id'' = r ''id''"
  "update_step order_no u r ''order_no'' = r ''order_no''"
  by (simp_all add: update_step_def)

lemma row_key_preds:
  assumes "row_key r = row_key r'"
  shows "row_has_id i r = row_has_id i r'" "has_order_no n r = has_order_no n r'"
    "r ''order_no'' = r' ''order_no''"
  using assms by (simp_all add: row_key_def row_has_id_def has_order_no_def)

lemma row_key_same: "same_key f \<Longrightarrow> row_key (f r) = row_key r"
  by (simp add: same_key_def row_key_def)

lemma map_row_key_same: "same_key f \<Longrightarrow> map row_key (map f rs) = map row_key rs"
  by (simp add: row_key_same)

lemma same_key_update_step: "same_key (update_step order_no u)"
  by (simp add: same_key_def)

lemma same_key_apply_updates: "same_key (apply_updates order_no us)"
  unfolding same_key_def by (induction us) simp_all

lemma same_key_broadcast: "same_key (broadcast_row order_no common)"
  by (simp add: same_key_def)

text \<open>Whether a check of the update phase fails depends on the ids and order numbers only.\<close>

lemma itemCheck_keys:
  assumes "map row_key rs = map row_key rs'"
  shows "itemCheck order_no i rs = itemCheck order_no i rs'"
proof -
  have "length rs = length rs'" using assms by (rule map_eq_imp_length_eq)
  then show ?thesis using assms
  proof (induction rs rs' rule: list_induct2)
    case Nil
    show ?case by simp
  next
    case (Cons r rs r' rs')
    then have k: "row_key r = row_key r'" and t: "map row_key rs = map row_key rs'" by simp_all
    have ih: "itemCheck order_no i rs = itemCheck order_no i rs'" using Cons.IH t by simp
    show ?case
      using row_key_preds[OF k] ih by (simp add: itemCheck_def)
  qed
qed

lemma no_match_keys:
  assumes "map row_key rs = map row_key rs'"
  shows "(filter (\<lambda>r. row_has_id i r \<and> has_order_no n r) rs = [])
       = (filter (\<lambda>r. row_has_id i r \<and> has_order_no n r) rs' = [])"
proof -
  have "length rs = length rs'" using assms by (rule map_eq_imp_length_eq)
  then show ?thesis using assms
  proof (induction rs rs' rule: list_induct2)
    case Nil
    show ?case by simp
  next
    case (Cons r rs r' rs')
    then have k: "row_key r = row_key r'" and t: "map row_key rs = map row_key rs'" by simp_all
    show ?case using row_key_preds[OF k] Cons.IH t by simp
  qed
qed

lemma update_item_keys:
  assumes "map row_key rs = map row_key rs'"
  shows "fst (update_item accepts order_no ex u rs) = fst (update_item accepts order_no ex u rs')"
  using itemCheck_keys[OF assms] no_match_keys[OF assms]
  by (simp add: update_item_def Let_def)

lemma update_item_same_keys:
  "map row_key (snd (update_item accepts order_no ex u rs)) = map row_key rs"
  using update_item_map[of accepts order_no ex u rs] map_row_key_same by auto

lemma update_phase_keys:
  assumes "map row_key rs = map row_key rs'"
  shows "fst (update_phase accepts order_no ex us rs) = fst (update_phase accepts order_no ex us rs')"
  using assms
proof (induction us arbitrary: rs rs')
  case Nil
  show ?case by simp
next
  case (Cons u us)
  obtain e r1 where a: "update_item accepts order_no ex u rs = (e, r1)"
    by (cases "update_item accepts order_no ex u rs")
  obtain e' r1' where b: "update_item accepts order_no ex u rs' = (e', r1')"
    by (cases "update_item accepts order_no ex u rs'")
  have "e' = e" using update_item_keys[OF Cons.prems, of accepts order_no ex u] a b by simp
  then have b': "update_item accepts order_no ex u rs' = (e, r1')" using b by simp
  have "map row_key r1 = map row_key r1'"
    using update_item_same_keys[of accepts order_no ex u rs] update_item_same_keys[of accepts order_no ex u rs']
      a b Cons.prems by simp
  then have ih: "fst (update_phase accepts order_no ex us r1) = fst (update_phase accepts order_no ex us r1')"
    by (rule Cons.IH)
  show ?case
  proof (cases e)
    case None
    then show ?thesis using a b' ih by simp
  next
    case (Some err)
    then show ?thesis using a b' by simp
  qed
qed

lemma update_item_None:
  assumes "update_item accepts order_no ex u rs = (None, rs')"
  shows "rs' = map (update_step order_no u) rs"
proof (cases "no_valid_fields (item_fields u)")
  case True
  then have "update_step order_no u = (\<lambda>r. r)" by (simp add: update_step_def fun_eq_iff)
  moreover have "rs' = rs" using assms True by (auto simp: update_item_def Let_def split: if_splits)
  ultimately show ?thesis by simp
next
  case False
  then have "update_step order_no u = update_row order_no (id_or_zero u) (item_fields u)"
    by (simp add: update_step_def fun_eq_iff)
  moreover have "rs' = map (update_row order_no (id_or_zero u) (item_fields u)) rs"
    using assms False by (auto simp: update_item_def Let_def split: if_splits)
  ultimately show ?thesis by simp
qed

lemma update_phase_None:
  assumes "fst (update_phase accepts order_no ex us rs) = None"
  shows "snd (update_phase accepts order_no ex us rs) = map (apply_updates order_no us) rs"
  using assms
proof (induction us arbitrary: rs)
  case Nil
  show ?case by simp
next
  case (Cons u us)
  obtain e r1 where a: "update_item accepts order_no ex u rs = (e, r1)"
    by (cases "update_item accepts order_no ex u rs")
  have e: "e = None" using Cons.prems a by (cases e) simp_all
  have r1: "r1 = map (update_step order_no u) rs" using update_item_None a e by blast
  have "fst (update_phase accepts order_no ex us r1) = None" using Cons.prems a e by simp
  then have "snd (update_phase accepts order_no ex us r1) = map (apply_updates order_no us) r1"
    by (rule Cons.IH)
  then show ?case using a e r1 by simp
qed

text \<open>The update phase and the broadcast overwrite columns; doing so twice changes nothing more.\<close>

lemma changes_key:
  assumes "row_key r = row_key r'"
  shows "changes order_no us r = changes order_no us r'"
  using row_key_preds[OF assms] by (induction us) simp_all

lemma apply_updates_changes: "apply_updates order_no us r = r ++ changes order_no us r"
proof (induction us arbitrary: r)
  case Nil
  show ?case by simp
next
  case (Cons u us)
  have k: "row_key (update_step order_no u r) = row_key r"
    by (rule row_key_same[OF same_key_update_step])
  have "apply_updates order_no (u # us) r
          = update_step order_no u r ++ changes order_no us (update_step order_no u r)"
    using Cons.IH by simp
  also have "\<dots> = update_step order_no u r ++ changes order_no us r"
    by (simp only: changes_key[OF k])
  also have "\<dots> = r ++ changes order_no (u # us) r"
    by (simp add: update_step_def update_row_def)
  finally show ?case .
qed

lemma map_add_twice: "(((m ++ a) ++ h) ++ a) ++ h = (m ++ a) ++ h"
  by (rule ext) (simp add: map_add_def split: option.splits)

lemma broadcast_apply_twice:
  "broadcast_row order_no common (apply_updates order_no us
      (broadcast_row order_no common (apply_updates order_no us r)))
   = broadcast_row order_no common (apply_updates order_no us r)"
proof -
  let ?a = "changes order_no us r"
  let ?h = "if has_order_no order_no r then common |` set commonFields else Map.empty"
  have bc: "broadcast_row order_no common x = x ++ ?h" if "row_key x = row_key r" for x
    using row_key_preds(2)[OF that] by (simp add: broadcast_row_def)
  have ap: "apply_updates order_no us x = x ++ ?a" if "row_key x = row_key r" for x
    using changes_key[OF that] by (simp add: apply_updates_changes)
  have k1: "row_key (r ++ ?a) = row_key r"
    using row_key_same[OF same_key_apply_updates, of order_no us r] by (simp add: apply_updates_changes)
  have k2: "row_key ((r ++ ?a) ++ ?h) = row_key r"
    using row_key_same[OF same_key_broadcast, of order_no common "r ++ ?a"] k1 bc[OF k1] by simp
  have k3: "row_key (((r ++ ?a) ++ ?h) ++ ?a) = row_key r"
    using row_key_same[OF same_key_apply_updates, of order_no us "(r ++ ?a) ++ ?h"] k2 ap[OF k2] by simp
  have "broadcast_row order_no common (apply_updates order_no us r) = (r ++ ?a) ++ ?h"
    using bc[OF k1] ap[of r] by simp
  moreover have "broadcast_row order_no common (apply_updates order_no us ((r ++ ?a) ++ ?h))
      = (((r ++ ?a) ++ ?h) ++ ?a) ++ ?h"
    using bc[OF k3] ap[OF k2] by simp
  ultimately show ?thesis by (simp only: map_add_twice)
qed

lemma updates_only_items:
  assumes "\<forall>d \<in> set body. has_id d \<and> \<not> is_deleted d"
  shows "itemsToUpdate (allItems body) = allItems body" "itemsToInsert (allItems body) = []"
    "itemsToDelete (allItems body) = []"
  using assms by (simp_all add: itemsToUpdate_def itemsToInsert_def itemsToDelete_def allItems_def filter_empty_conv)

lemma orderExists_keys:
  assumes "same_key f"
  shows "orderExists order_no (map f rs) = orderExists order_no rs"
proof -
  have "has_order_no order_no (f r) = has_order_no order_no r" for r
    using assms by (simp add: same_key_def has_order_no_def)
  then show ?thesis by (simp add: orderExists_def filter_map comp_def)
qed

lemma run_updates_only:
  assumes "itemsToUpdate items = items" "itemsToInsert items = []" "itemsToDelete items = []"
  shows "run (phases accepts today order_no items True) s0 =
     (case update_phase accepts order_no True items (rows s0) of
        (Some e, rs) \<Rightarrow> (Some e, s0\<lparr>rows := rs\<rparr>)
      | (None, rs) \<Rightarrow>
          if \<not> accepted accepts commonFields (commonOrderDetails today items)
          then (Some StoreError, s0\<lparr>rows := rs\<rparr>)
          else (None, s0\<lparr>rows := map (broadcast_row order_no (commonOrderDetails today items)) rs\<rparr>))"
  by (simp add: phases_def Let_def assms on_rows_def on_rows_seq_def delete_phase_def insert_phase_def
      broadcast_phase_def split: prod.splits option.splits)

lemma put_updates_only_result:
  assumes "\<forall>d \<in> set body. has_id d \<and> \<not> is_deleted d"
    and "updates_commit accepts today order_no body (rows s)"
  shows "put_orders_by_number accepts today order_no body s =
     (Succeeded (success order_no (allItems body) (commonOrderDetails today (allItems body))
        (map (broadcast_row order_no (commonOrderDetails today (allItems body)) \<circ>
              apply_updates order_no (allItems body)) (rows s))),
      (BEGIN s)\<lparr>rows := map (broadcast_row order_no (commonOrderDetails today (allItems body)) \<circ>
                             apply_updates order_no (allItems body)) (rows s)\<rparr>)"
proof -
  have nb: "\<not> (order_no = [] \<or> trim order_no = [])" and ne: "body \<noteq> []"
    and ex: "orderExists order_no (rows s)"
    and up: "fst (update_phase accepts order_no True (allItems body) (rows s)) = None"
    and ac: "accepted accepts commonFields (commonOrderDetails today (allItems body))"
    using assms(2) by (simp_all add: updates_commit_def)
  note it = updates_only_items[OF assms(1)]
  obtain rs where u: "update_phase accepts order_no True (allItems body) (rows s) = (None, rs)"
    using up by (cases "update_phase accepts order_no True (allItems body) (rows s)") simp
  have rs: "rs = map (apply_updates order_no (allItems body)) (rows s)"
    using update_phase_None[OF up] u by simp
  have "run (phases accepts today order_no (allItems body) True) (BEGIN s)
      = (None, (BEGIN s)\<lparr>rows := map (broadcast_row order_no (commonOrderDetails today (allItems body))) rs\<rparr>)"
    using run_updates_only[OF it(1,2,3), of accepts today order_no "BEGIN s"] u ac by simp
  then show ?thesis
    using put_run[OF nb ne, of s accepts today] ex rs by simp
qed

lemma put_updates_only_commit:
  assumes "\<forall>d \<in> set body. has_id d \<and> \<not> is_deleted d"
    and "updates_commit accepts today order_no body (rows s)"
  shows "rows (snd (put_orders_by_number accepts today order_no body s)) =
     map (broadcast_row order_no (commonOrderDetails today (allItems body)) \<circ>
          apply_updates order_no (allItems body)) (rows s)"
  by (simp add: put_updates_only_result[OF assms])

lemma put_updates_only_fail:
  assumes "\<forall>d \<in> set body. has_id d \<and> \<not> is_deleted d"
    and "\<not> updates_commit accepts today order_no body (rows s)"
  shows "rows (snd (put_orders_by_number accepts today order_no body s)) = rows s"
proof -
  let ?put = "put_orders_by_number accepts today order_no body s"
  have "fst ?put \<noteq> Succeeded resp" for resp
  proof
    assume "fst ?put = Succeeded resp"
    then have p: "?put = (Succeeded resp, snd ?put)" by (metis prod.collapse)
    note it = updates_only_items[OF assms(1)]
    note ps = put_Succeeded[OF p]
    have nb: "\<not> (order_no = [] \<or> trim order_no = [])" and ne: "body \<noteq> []"
      using ps by blast+
    have ex: "orderExists order_no (rows s)"
      using ps it(2) by blast
    have run: "run (phases accepts today order_no (allItems body) (orderExists order_no (rows s))) (BEGIN s)
                  = (None, snd ?put)"
      using ps by blast
    have run': "run (phases accepts today order_no (allItems body) True) (BEGIN s) = (None, snd ?put)"
      using run ex by simp
    have "fst (update_phase accepts order_no True (allItems body) (rows s)) = None
        \<and> accepted accepts commonFields (commonOrderDetails today (allItems body))"
      using run' unfolding run_updates_only[OF it(1,2,3)]
      by (auto split: prod.splits option.splits if_splits)
    then show False using assms(2) nb ne ex by (simp add: updates_commit_def)
  qed
  then show ?thesis
    using put_not_succeeded_rows[of accepts today order_no body s "fst ?put" "snd ?put"] by simp
qed

text \<open>Resubmission with the clock unchanged.\<close>

lemma resubmission_same_date:
  assumes "\<forall>d \<in> set body. has_id d \<and> \<not> is_deleted d"
  shows "rows (snd (put_orders_by_number accepts today order_no body
                 (snd (put_orders_by_number accepts today order_no body s))))
       = rows (snd (put_orders_by_number accepts today order_no body s))"
proof -
  let ?items = "allItems body"
  let ?common = "commonOrderDetails today ?items"
  let ?g = "broadcast_row order_no ?common \<circ> apply_updates order_no ?items"
  let ?s1 = "snd (put_orders_by_number accepts today order_no body s)"
  have g: "same_key ?g"
    using same_key_comp[OF same_key_apply_updates same_key_broadcast] .
  show ?thesis
  proof (cases "updates_commit accepts today order_no body (rows s)")
    case False
    then have 1: "rows ?s1 = rows s" by (rule put_updates_only_fail[OF assms])
    then have "\<not> updates_commit accepts today order_no body (rows ?s1)" using False by simp
    then have "rows (snd (put_orders_by_number accepts today order_no body ?s1)) = rows ?s1"
      by (rule put_updates_only_fail[OF assms])
    then show ?thesis .
  next
    case True
    then have 1: "rows ?s1 = map ?g (rows s)" by (rule put_updates_only_commit[OF assms])
    have "orderExists order_no (rows ?s1)"
      using True g by (simp add: 1 orderExists_keys updates_commit_def)
    moreover have "fst (update_phase accepts order_no True ?items (rows ?s1)) = None"
      using True update_phase_keys[of "rows ?s1" "rows s" accepts order_no True ?items]
        map_row_key_same[OF g, of "rows s"] by (simp add: 1 updates_commit_def)
    ultimately have "updates_commit accepts today order_no body (rows ?s1)"
      using True by (simp add: updates_commit_def)
    then have "rows (snd (put_orders_by_number accepts today order_no body ?s1)) = map ?g (rows ?s1)"
      by (rule put_updates_only_commit[OF assms])
    also have "\<dots> = map (?g \<circ> ?g) (rows s)" by (simp add: 1)
    also have "?g \<circ> ?g = ?g"
      by (rule ext) (simp add: broadcast_apply_twice)
    finally show ?thesis by (simp add: 1)
  qed
qed

text \<open>
  The current date reaches the store only through the resolved header, and there only as
  the default of \<^verbatim>\<open>order_date\<close>.
\<close>

lemma code_default_today:
  "field \<noteq> ''order_date'' \<Longrightarrow> code_default today2 field = code_default today1 field"
  by (simp add: code_default_def spec_default_def)

lemma commonOrderDetails_today:
  assumes "today2 = today1
           \<or> (\<exists>item. least_id_source body = Some item \<and> item_fields item ''order_date'' \<noteq> None)"
  shows "commonOrderDetails today2 (allItems body) = commonOrderDetails today1 (allItems body)"
  using assms
proof
  assume "today2 = today1"
  then show ?thesis by simp
next
  assume "\<exists>item. least_id_source body = Some item \<and> item_fields item ''order_date'' \<noteq> None"
  then obtain item where i: "least_id_source body = Some item"
    "item_fields item ''order_date'' \<noteq> None" by blast
  have "header_from (code_default today2) (Some item) field
        = header_from (code_default today1) (Some item) field" for field
    using i(2) code_default_today[of field today2 today1]
    by (cases "field = ''order_date''") (auto simp: header_from_def split: option.splits)
  then show ?thesis
    by (simp add: commonOrderDetails_header_from priorityItem_sorted i(1) fun_eq_iff)
qed

lemma put_updates_only_today:
  assumes "\<forall>d \<in> set body. has_id d \<and> \<not> is_deleted d"
    and "commonOrderDetails today2 (allItems body) = commonOrderDetails today1 (allItems body)"
  shows "rows (snd (put_orders_by_number accepts today2 order_no body s))
       = rows (snd (put_orders_by_number accepts today1 order_no body s))"
proof (cases "updates_commit accepts today1 order_no body (rows s)")
  case True
  then have "updates_commit accepts today2 order_no body (rows s)"
    by (simp add: updates_commit_def assms(2))
  then show ?thesis
    using True by (simp add: put_updates_only_commit[OF assms(1)] assms(2))
next
  case False
  then have "\<not> updates_commit accepts today2 order_no body (rows s)"
    by (simp add: updates_commit_def assms(2))
  then show ?thesis
    using False by (simp add: put_updates_only_fail[OF assms(1)])
qed

lemma updates_commit_again:
  assumes "updates_commit accepts today1 order_no body rs" "same_key g"
    and "accepted accepts commonFields (commonOrderDetails today2 (allItems body))"
  shows "updates_commit accepts today2 order_no body (map g rs)"
proof -
  have "orderExists order_no (map g rs)"
    using assms(1,2) by (simp add: orderExists_keys updates_commit_def)
  moreover have "fst (update_phase accepts order_no True (allItems body) (map g rs)) = None"
    using assms(1) update_phase_keys[of "map g rs" rs accepts order_no True "allItems body"]
      map_row_key_same[OF assms(2), of rs] by (simp add: updates_commit_def)
  ultimately show ?thesis
    using assms(1,3) by (simp add: updates_commit_def)
qed

text \<open>
  Claim C8, amended. For a batch in which every descriptor carries an id and none is
  marked deleted: when the second submission is handled on the same current date as the
  first, or the descriptor that is the source of the header (the one with the least id)
  carries an \<^verbatim>\<open>order_date\<close>, submitting the batch a second time leaves the rows of the
  store as the first submission left them.
\<close>

theorem resubmission_is_noop:
  assumes "\<forall>d \<in> set body. has_id d \<and> \<not> is_deleted d"
    and "today2 = today1
         \<or> (\<exists>item. least_id_source body = Some item \<and> item_fields item ''order_date'' \<noteq> None)"
  shows "rows (snd (put_orders_by_number accepts today2 order_no body
                 (snd (put_orders_by_number accepts today1 order_no body s))))
       = rows (snd (put_orders_by_number accepts today1 order_no body s))"
proof -
  let ?s1 = "snd (put_orders_by_number accepts today1 order_no body s)"
  have "rows (snd (put_orders_by_number accepts today2 order_no body ?s1))
      = rows (snd (put_orders_by_number accepts today1 order_no body ?s1))"
    by (rule put_updates_only_today[OF assms(1) commonOrderDetails_today[OF assms(2)]])
  also have "\<dots> = rows ?s1"
    by (rule resubmission_same_date[OF assms(1)])
  finally show ?thesis .
qed

lemma changed_line_commits:
  "updates_commit (\<lambda>_ _. True) today ''SQ-01-01-24-0001'' [changed_line] (rows store0)"
proof -
  have "\<not> no_valid_fields [''quantity'' \<mapsto> JNum 5]"
    by (simp add: no_valid_fields_def allowedFields_def)
  moreover have "itemCheck ''SQ-01-01-24-0001'' 10 [row10, row11, row20] = None"
    by (simp add: itemCheck_def row_preds row10_def row11_def row20_def)
  moreover have "filter (\<lambda>r. row_has_id 10 r \<and> has_order_no ''SQ-01-01-24-0001'' r) [row10, row11, row20] = [row10]"
    by (simp add: row_preds row10_def row11_def row20_def)
  ultimately have "fst (update_phase (\<lambda>_ _. True) ''SQ-01-01-24-0001'' True [changed_line] (rows store0)) = None"
    by (simp add: update_item_def changed_line_def id_or_zero_def store0_def Let_def)
  moreover have "allItems [changed_line] = [changed_line]" by (simp add: allItems_def)
  ultimately show ?thesis
    using nonblank_example example_exists by (simp add: updates_commit_def del: update_phase.simps)
qed

lemma dated_line_commits:
  "updates_commit (\<lambda>_ _. True) today ''SQ-01-01-24-0001'' [dated_line] (rows store0)"
proof -
  have "\<not> no_valid_fields [''quantity'' \<mapsto> JNum 5, ''order_date'' \<mapsto> JStr ''2023-12-31'']"
    by (simp add: no_valid_fields_def allowedFields_def)
  moreover have "itemCheck ''SQ-01-01-24-0001'' 10 [row10, row11, row20] = None"
    by (simp add: itemCheck_def row_preds row10_def row11_def row20_def)
  moreover have "filter (\<lambda>r. row_has_id 10 r \<and> has_order_no ''SQ-01-01-24-0001'' r) [row10, row11, row20] = [row10]"
    by (simp add: row_preds row10_def row11_def row20_def)
  ultimately have "fst (update_phase (\<lambda>_ _. True) ''SQ-01-01-24-0001'' True [dated_line] (rows store0)) = None"
    by (simp add: update_item_def dated_line_def id_or_zero_def store0_def Let_def)
  moreover have "allItems [dated_line] = [dated_line]" by (simp add: allItems_def)
  ultimately show ?thesis
    using nonblank_example example_exists by (simp add: updates_commit_def del: update_phase.simps)
qed

lemma header_order_date:
  "commonOrderDetails today [changed_line] ''order_date'' = Some (JStr today)"
  "commonOrderDetails today [dated_line] ''order_date'' = Some (JStr ''2023-12-31'')"
  by (simp_all add: commonOrderDetails_header_from changed_line_def dated_line_def is_deleted_def
      has_id_def priorityItem_def header_from_def commonFields_def code_default_def spec_default_def)

lemma row10_order_date:
  assumes "same_key f" "common ''order_date'' \<noteq> None"
  shows "(broadcast_row ''SQ-01-01-24-0001'' common \<circ> f) row10 ''order_date'' = common ''order_date''"
proof -
  have "has_order_no ''SQ-01-01-24-0001'' (f row10)"
    using assms(1) by (simp add: same_key_def has_order_no_def row10_def)
  then show ?thesis
    using assms(2)
    by (auto simp: broadcast_row_def map_add_def restrict_map_def commonFields_def split: option.splits)
qed

theorem resubmission_is_noop_witness:
  "rows (snd (put_orders_by_number (\<lambda>_ _. True) ''2024-01-02'' ''SQ-01-01-24-0001'' [dated_line]
            (snd (put_orders_by_number (\<lambda>_ _. True) ''2024-01-01'' ''SQ-01-01-24-0001'' [dated_line] store0))))
     = rows (snd (put_orders_by_number (\<lambda>_ _. True) ''2024-01-01'' ''SQ-01-01-24-0001'' [dated_line] store0))
   \<and> rows (snd (put_orders_by_number (\<lambda>_ _. True) ''2024-01-01'' ''SQ-01-01-24-0001'' [dated_line] store0))
     = map (broadcast_row ''SQ-01-01-24-0001'' (commonOrderDetails ''2024-01-01'' [dated_line]) \<circ>
            apply_updates ''SQ-01-01-24-0001'' [dated_line]) (rows store0)
   \<and> rows (snd (put_orders_by_number (\<lambda>_ _. True) ''2024-01-01'' ''SQ-01-01-24-0001'' [changed_line]
            (snd (put_orders_by_number (\<lambda>_ _. True) ''2024-01-01'' ''SQ-01-01-24-0001'' [changed_line] store0))))
     = rows (snd (put_orders_by_number (\<lambda>_ _. True) ''2024-01-01'' ''SQ-01-01-24-0001'' [changed_line] store0))
   \<and> has_id dated_line \<and> \<not> is_deleted dated_line
   \<and> least_id_source [dated_line] = Some dated_line
   \<and> item_fields dated_line ''order_date'' = Some (JStr ''2023-12-31'')
   \<and> has_id changed_line \<and> \<not> is_deleted changed_line"
proof -
  have h: "\<forall>d \<in> set [dated_line]. has_id d \<and> \<not> is_deleted d"
    by (simp add: dated_line_def has_id_def is_deleted_def)
  have k: "\<forall>d \<in> set [changed_line]. has_id d \<and> \<not> is_deleted d"
    by (simp add: changed_line_def has_id_def is_deleted_def)
  have l: "least_id_source [dated_line] = Some dated_line"
    by (simp add: least_id_source_def dated_line_def has_id_def is_deleted_def id_or_zero_def)
  have o: "item_fields dated_line ''order_date'' = Some (JStr ''2023-12-31'')"
    by (simp add: dated_line_def)
  have d: "''2024-01-02'' = ''2024-01-01''
           \<or> (\<exists>item. least_id_source [dated_line] = Some item \<and> item_fields item ''order_date'' \<noteq> None)"
    using l o by simp
  have e: "''2024-01-01'' = ''2024-01-01''
           \<or> (\<exists>item. least_id_source [changed_line] = Some item \<and> item_fields item ''order_date'' \<noteq> None)"
    by simp
  have "allItems [dated_line] = [dated_line]" by (simp add: allItems_def)
  then show ?thesis
    using resubmission_is_noop[OF h d, of "\<lambda>_ _. True" "''SQ-01-01-24-0001''" store0]
      resubmission_is_noop[OF k e, of "\<lambda>_ _. True" "''SQ-01-01-24-0001''" store0]
      put_updates_only_commit[OF h dated_line_commits[of "''2024-01-01''"]] h k l o
    by simp
qed

text \<open>
  Claim C8 as worded fails. The batch \<^verbatim>\<open>[{id:10, quantity:5}]\<close> carries no \<^verbatim>\<open>order_date\<close>,
  so the header takes the date of the request: submitted on 1 January 2024 it leaves
  that date in the rows of the order, and submitted again on 2 January it overwrites it.
\<close>

theorem resubmission_is_noop_counterexample:
  "has_id changed_line \<and> \<not> is_deleted changed_line
   \<and> hd (rows (snd (put_orders_by_number (\<lambda>_ _. True) ''2024-01-01'' ''SQ-01-01-24-0001''
                      [changed_line] store0))) ''order_date'' = Some (JStr ''2024-01-01'')
   \<and> hd (rows (snd (put_orders_by_number (\<lambda>_ _. True) ''2024-01-02'' ''SQ-01-01-24-0001''
                      [changed_line]
                      (snd (put_orders_by_number (\<lambda>_ _. True) ''2024-01-01'' ''SQ-01-01-24-0001''
                              [changed_line] store0))))) ''order_date'' = Some (JStr ''2024-01-02'')
   \<and> rows (snd (put_orders_by_number (\<lambda>_ _. True) ''2024-01-02'' ''SQ-01-01-24-0001''
                  [changed_line]
                  (snd (put_orders_by_number (\<lambda>_ _. True) ''2024-01-01'' ''SQ-01-01-24-0001''
                          [changed_line] store0))))
       \<noteq> rows (snd (put_orders_by_number (\<lambda>_ _. True) ''2024-01-01'' ''SQ-01-01-24-0001''
                       [changed_line] store0))"
proof -
  let ?put = "\<lambda>today. put_orders_by_number (\<lambda>_ _. True) today ''SQ-01-01-24-0001'' [changed_line]"
  let ?g = "\<lambda>today. broadcast_row ''SQ-01-01-24-0001'' (commonOrderDetails today [changed_line]) \<circ>
                      apply_updates ''SQ-01-01-24-0001'' [changed_line]"
  have k: "\<forall>d \<in> set [changed_line]. has_id d \<and> \<not> is_deleted d"
    by (simp add: changed_line_def has_id_def is_deleted_def)
  have a: "allItems [changed_line] = [changed_line]" by (simp add: allItems_def)
  have g: "same_key (?g today)" for today
    using same_key_comp[OF same_key_apply_updates same_key_broadcast] .
  have 1: "rows (snd (?put ''2024-01-01'' store0)) = map (?g ''2024-01-01'') (rows store0)"
    using put_updates_only_commit[OF k changed_line_commits[of "''2024-01-01''"]] by (simp add: a)
  have "updates_commit (\<lambda>_ _. True) ''2024-01-02'' ''SQ-01-01-24-0001'' [changed_line]
          (map (?g ''2024-01-01'') (rows store0))"
    by (rule updates_commit_again[OF changed_line_commits[of "''2024-01-01''"] g]) simp
  then have "updates_commit (\<lambda>_ _. True) ''2024-01-02'' ''SQ-01-01-24-0001'' [changed_line]
          (rows (snd (?put ''2024-01-01'' store0)))"
    by (simp only: 1)
  then have 2: "rows (snd (?put ''2024-01-02'' (snd (?put ''2024-01-01'' store0))))
                  = map (?g ''2024-01-02'') (map (?g ''2024-01-01'') (rows store0))"
    using put_updates_only_commit[OF k, of "\<lambda>_ _. True" "''2024-01-02''" "''SQ-01-01-24-0001''"
            "snd (?put ''2024-01-01'' store0)"]
    by (simp only: 1 a)
  have r: "rows store0 = [row10, row11, row20]" by (simp add: store0_def)
  have d1: "hd (rows (snd (?put ''2024-01-01'' store0))) ''order_date'' = Some (JStr ''2024-01-01'')"
    unfolding 1 r
    using row10_order_date[OF same_key_apply_updates, of "commonOrderDetails ''2024-01-01'' [changed_line]"
            "''SQ-01-01-24-0001''" "[changed_line]"]
    by (simp add: header_order_date)
  have sk: "same_key (apply_updates ''SQ-01-01-24-0001'' [changed_line] \<circ> ?g ''2024-01-01'')"
    using same_key_comp[OF g same_key_apply_updates] .
  have d2: "hd (rows (snd (?put ''2024-01-02'' (snd (?put ''2024-01-01'' store0))))) ''order_date''
              = Some (JStr ''2024-01-02'')"
    unfolding 2 r
    using row10_order_date[OF sk, of "commonOrderDetails ''2024-01-02'' [changed_line]"]
    by (simp add: header_order_date)
  have "rows (snd (?put ''2024-01-02'' (snd (?put ''2024-01-01'' store0))))
          \<noteq> rows (snd (?put ''2024-01-01'' store0))"
    using d1 d2 by auto
  then show ?thesis using d1 d2 k by simp
qed

section \<open>Validation before the transaction\<close>

lemma validate_invalid: "validate sn index item \<noteq> [] \<longleftrightarrow> invalid sn item"
proof (cases "is_deleted item")
  case True
  then show ?thesis by (simp add: validate_def invalid_def)
next
  case False
  have n: "filter (\<lambda>field. case item_fields item field of None \<Rightarrow> False
                              | Some v \<Rightarrow> isNaN sn v) numericFields \<noteq> []
           \<longleftrightarrow> nan_in_numeric_field sn item"
    by (auto simp: nan_in_numeric_field_def list_ex_iff filter_empty_conv)
  have g: "(case item_fields item ''gst'' of
              None \<Rightarrow> []
            | Some v \<Rightarrow>
                (case to_number sn v of
                   None \<Rightarrow> []
                 | Some n \<Rightarrow> if n < 0 \<or> n > 100 then [GstOutOfRange index] else [])) \<noteq> []
           \<longleftrightarrow> gst_out_of_range sn item"
    by (simp add: gst_out_of_range_def split: option.splits)
  show ?thesis
    using False n g by (simp add: validate_def invalid_def)
qed

lemma validationErrors_invalid:
  "validationErrors sn updates \<noteq> [] \<longleftrightarrow> list_ex (invalid sn) updates"
proof
  assume "validationErrors sn updates \<noteq> []"
  then obtain index item where "(index, item) \<in> set (enumerate 0 updates)"
    "validate sn index item \<noteq> []"
    by (auto simp: validationErrors_def)
  then have "item \<in> set updates" "invalid sn item"
    by (auto simp: in_set_enumerate_eq validate_invalid)
  then show "list_ex (invalid sn) updates" by (auto simp: list_ex_iff)
next
  assume "list_ex (invalid sn) updates"
  then obtain item where i: "item \<in> set updates" "invalid sn item"
    by (auto simp: list_ex_iff)
  then obtain index where "index < length updates" "updates ! index = item"
    by (auto simp: in_set_conv_nth)
  then have "(index, item) \<in> set (enumerate 0 updates)"
    by (auto simp: in_set_enumerate_eq)
  moreover have "(case (index, item) of (index, update) \<Rightarrow> validate sn index update) \<noteq> []"
    using i(2) by (simp add: validate_invalid)
  ultimately have "\<exists>p \<in> set (enumerate 0 updates).
      (case p of (index, update) \<Rightarrow> validate sn index update) \<noteq> []"
    by (rule bexI[rotated])
  then show "validationErrors sn updates \<noteq> []" by (simp add: validationErrors_def)
qed

lemma invalid_sorted: "list_ex (invalid sn) (sort_key id_or_zero body) = list_ex (invalid sn) body"
  by (simp add: list_ex_iff)

text \<open>
  The second handler on an array: it rejects before the store exactly the requests with
  a blank order number, an empty array or an invalid descriptor; on every other it
  begins a transaction.
\<close>

lemma part_000_rejects:
  assumes "order_no = [] \<or> trim order_no = [] \<or> body = [] \<or> list_ex (invalid sn) body"
  shows "\<exists>msg. put_orders_by_number_part_000 sn accepts order_no body s = (Rejected msg, s)"
proof (cases "order_no = [] \<or> trim order_no = [] \<or> body = []")
  case True
  then show ?thesis by (auto simp: put_orders_by_number_part_000_def)
next
  case False
  then have "validationErrors sn (sort_key id_or_zero body) \<noteq> []"
    using assms by (simp add: validationErrors_invalid invalid_sorted)
  then show ?thesis by (simp add: put_orders_by_number_part_000_def Let_def)
qed

lemma part_000_begins:
  assumes "\<not> (order_no = [] \<or> trim order_no = [] \<or> body = [] \<or> list_ex (invalid sn) body)"
  shows "transactions (snd (put_orders_by_number_part_000 sn accepts order_no body s))
           = Suc (transactions s)"
    and "fst (put_orders_by_number_part_000 sn accepts order_no body s) \<noteq> Rejected msg"
proof -
  have v: "validationErrors sn (sort_key id_or_zero body) = []"
    using assms validationErrors_invalid[of sn "sort_key id_or_zero body"]
    by (simp add: invalid_sorted)
  have ne: "sort_key id_or_zero body \<noteq> []"
    using assms by (metis length_0_conv length_sort)
  have nb: "\<not> (order_no = [] \<or> trim order_no = [])" using assms by simp
  obtain e rs where t: "transaction_part_000 accepts order_no (sort_key id_or_zero body)
      (rows (BEGIN s)) = (e, rs)"
    by (cases "transaction_part_000 accepts order_no (sort_key id_or_zero body) (rows (BEGIN s))")
  show "transactions (snd (put_orders_by_number_part_000 sn accepts order_no body s))
           = Suc (transactions s)"
    using v ne nb t
    by (cases e) (simp_all add: put_orders_by_number_part_000_def Let_def BEGIN_def ROLLBACK_def)
  show "fst (put_orders_by_number_part_000 sn accepts order_no body s) \<noteq> Rejected msg"
    using v ne nb t
    by (cases e) (simp_all add: put_orders_by_number_part_000_def Let_def)
qed

text \<open>
  Claim C7, amended. Of a request whose body is an array: when the order number is
  missing or blank, or the array is empty, the handler of \<^verbatim>\<open>firebase-connector.js\<close>
  replies with a validation error and leaves the store as it is, with no transaction
  begun; and so does the handler of the second source file, which also replies so when
  a descriptor has no id, or when a descriptor not marked deleted has in a numeric field
  a value that \<^verbatim>\<open>isNaN\<close> converts to \<^verbatim>\<open>NaN\<close> or has a gst whose conversion is below 0 or
  above 100.
\<close>

theorem malformed_rejected:
  "(order_no = [] \<or> trim order_no = [] \<or> items = []
      \<longrightarrow> (\<exists>msg. put_orders_by_number_request accepts today order_no (Array items) s
                   = (Replied (BadRequest msg), s)))
   \<and> (order_no = [] \<or> trim order_no = [] \<or> items = []
        \<or> list_ex (\<lambda>item. \<not> has_id item
                      \<or> (\<not> is_deleted item
                          \<and> (nan_in_numeric_field sn item \<or> gst_out_of_range sn item))) items
      \<longrightarrow> (\<exists>msg. put_orders_by_number_part_000_request sn accepts order_no (Array items) s
                   = (Replied (Rejected msg), s)))"
proof (intro conjI impI)
  assume "order_no = [] \<or> trim order_no = [] \<or> items = []"
  then have "\<exists>msg. put_orders_by_number accepts today order_no items s = (BadRequest msg, s)"
    by (cases "order_no = [] \<or> trim order_no = []") (auto simp: put_blank put_empty)
  then show "\<exists>msg. put_orders_by_number_request accepts today order_no (Array items) s
                   = (Replied (BadRequest msg), s)"
    by (auto simp: put_orders_by_number_request_def)
next
  assume "order_no = [] \<or> trim order_no = [] \<or> items = []
        \<or> list_ex (\<lambda>item. \<not> has_id item
                      \<or> (\<not> is_deleted item
                          \<and> (nan_in_numeric_field sn item \<or> gst_out_of_range sn item))) items"
  then have "order_no = [] \<or> trim order_no = [] \<or> items = [] \<or> list_ex (invalid sn) items"
    by (simp add: invalid_def[abs_def])
  then have "\<exists>msg. put_orders_by_number_part_000 sn accepts order_no items s = (Rejected msg, s)"
    by (rule part_000_rejects)
  then show "\<exists>msg. put_orders_by_number_part_000_request sn accepts order_no (Array items) s
                   = (Replied (Rejected msg), s)"
    by (auto simp: put_orders_by_number_part_000_request_def)
qed

lemma gst_line_facts:
  "has_id gst_line" "\<not> is_deleted gst_line" "gst_out_of_range sn gst_line"
  by (simp_all add: gst_line_def has_id_def is_deleted_def gst_out_of_range_def)

lemma trim_no_break_space: "trim [CHR 0xC2, CHR 0xA0] = []"
proof -
  have "leading_space [CHR 0xC2, CHR 0xA0] = 2"
    by (simp add: leading_space_def white_space_def)
  moreover have "leading_space [] = 0" "trailing_space [] = 0"
    by (simp_all add: leading_space_def trailing_space_def white_space_def)
  ultimately show ?thesis
    by (simp add: trim_def trimStart.simps[of "[CHR 0xC2, CHR 0xA0]"] trimStart.simps[of "[]"]
        trimEnd.simps[of "[]"])
qed

theorem malformed_rejected_witness:
  "\<forall>sn. (\<exists>msg. put_orders_by_number_request (\<lambda>_ _. True) ''2024-01-01'' ''SQ-01-01-24-0001''
                  (Array []) store0 = (Replied (BadRequest msg), store0))
     \<and> (\<exists>msg. put_orders_by_number_request (\<lambda>_ _. True) ''2024-01-01'' [CHR 0xC2, CHR 0xA0]
                  (Array [changed_line]) store0 = (Replied (BadRequest msg), store0))
     \<and> (\<exists>msg. put_orders_by_number_part_000_request sn (\<lambda>_ _. True) ''SQ-01-01-24-0001''
                  (Array [gst_line]) store0 = (Replied (Rejected msg), store0))
     \<and> has_id gst_line \<and> \<not> is_deleted gst_line \<and> gst_out_of_range sn gst_line"
proof
  fix sn
  note th = malformed_rejected[of _ _ "\<lambda>_ _. True" "''2024-01-01''" store0 sn]
  have "\<exists>msg. put_orders_by_number_request (\<lambda>_ _. True) ''2024-01-01'' ''SQ-01-01-24-0001''
                  (Array []) store0 = (Replied (BadRequest msg), store0)"
    using th[of "''SQ-01-01-24-0001''" "[]"] by simp
  moreover have "\<exists>msg. put_orders_by_number_request (\<lambda>_ _. True) ''2024-01-01'' [CHR 0xC2, CHR 0xA0]
                  (Array [changed_line]) store0 = (Replied (BadRequest msg), store0)"
    using th[of "[CHR 0xC2, CHR 0xA0]" "[changed_line]"] trim_no_break_space by simp
  moreover have "\<exists>msg. put_orders_by_number_part_000_request sn (\<lambda>_ _. True) ''SQ-01-01-24-0001''
                  (Array [gst_line]) store0 = (Replied (Rejected msg), store0)"
    using th[of "''SQ-01-01-24-0001''" "[gst_line]"] gst_line_facts by simp
  ultimately show "(\<exists>msg. put_orders_by_number_request (\<lambda>_ _. True) ''2024-01-01'' ''SQ-01-01-24-0001''
                  (Array []) store0 = (Replied (BadRequest msg), store0))
     \<and> (\<exists>msg. put_orders_by_number_request (\<lambda>_ _. True) ''2024-01-01'' [CHR 0xC2, CHR 0xA0]
                  (Array [changed_line]) store0 = (Replied (BadRequest msg), store0))
     \<and> (\<exists>msg. put_orders_by_number_part_000_request sn (\<lambda>_ _. True) ''SQ-01-01-24-0001''
                  (Array [gst_line]) store0 = (Replied (Rejected msg), store0))
     \<and> has_id gst_line \<and> \<not> is_deleted gst_line \<and> gst_out_of_range sn gst_line"
    using gst_line_facts by simp
qed

lemma gst_line_commits:
  "updates_commit (\<lambda>_ _. True) ''2024-01-01'' ''SQ-01-01-24-0001'' [gst_line] (rows store0)"
proof -
  have "\<not> no_valid_fields [''gst'' \<mapsto> JNum 150]"
    by (simp add: no_valid_fields_def allowedFields_def)
  moreover have "itemCheck ''SQ-01-01-24-0001'' 10 [row10, row11, row20] = None"
    by (simp add: itemCheck_def row_preds row10_def row11_def row20_def)
  moreover have "filter (\<lambda>r. row_has_id 10 r \<and> has_order_no ''SQ-01-01-24-0001'' r) [row10, row11, row20] = [row10]"
    by (simp add: row_preds row10_def row11_def row20_def)
  ultimately have "fst (update_phase (\<lambda>_ _. True) ''SQ-01-01-24-0001'' True [gst_line] (rows store0)) = None"
    by (simp add: update_item_def gst_line_def id_or_zero_def store0_def Let_def)
  moreover have "allItems [gst_line] = [gst_line]" by (simp add: allItems_def)
  ultimately show ?thesis
    using nonblank_example example_exists by (simp add: updates_commit_def del: update_phase.simps)
qed

lemma gst_line_written:
  "(broadcast_row ''SQ-01-01-24-0001'' common \<circ> apply_updates ''SQ-01-01-24-0001'' [gst_line]) row10 ''gst''
     = Some (JNum 150)"
  by (simp add: broadcast_row_def update_step_def update_row_def no_valid_fields_def allowedFields_def
      gst_line_def id_or_zero_def row_preds row10_def filteredFields_def map_add_def restrict_map_def
      commonFields_def)

lemma gst_line_stored:
  "\<exists>resp s'. put_orders_by_number (\<lambda>_ _. True) ''2024-01-01'' ''SQ-01-01-24-0001'' [gst_line] store0
                    = (Succeeded resp, s')
          \<and> transactions s' = 1 \<and> hd (rows s') ''gst'' = Some (JNum 150)"
proof -
  have h: "\<forall>d \<in> set [gst_line]. has_id d \<and> \<not> is_deleted d"
    using gst_line_facts by simp
  have "hd (rows ((BEGIN store0)\<lparr>rows := map (broadcast_row ''SQ-01-01-24-0001''
            (commonOrderDetails ''2024-01-01'' (allItems [gst_line])) \<circ>
             apply_updates ''SQ-01-01-24-0001'' (allItems [gst_line])) (rows store0)\<rparr>)) ''gst''
          = Some (JNum 150)"
    using gst_line_written by (simp add: store0_def allItems_def)
  moreover have "transactions ((BEGIN store0)\<lparr>rows := rs\<rparr>) = 1" for rs
    by (simp add: BEGIN_def store0_def)
  ultimately show ?thesis
    unfolding put_updates_only_result[OF h gst_line_commits] by blast
qed

lemma part_000_processed:
  assumes "\<not> (order_no = [] \<or> trim order_no = [])" "body \<noteq> []"
    and "validationErrors sn (sort_key id_or_zero body) = []"
    and "transaction_part_000 accepts order_no (sort_key id_or_zero body) (rows s) = (None, rs)"
  shows "\<exists>resp. put_orders_by_number_part_000 sn accepts order_no body s
           = (Processed resp, (BEGIN s)\<lparr>rows := rs\<rparr>)"
proof -
  have "sort_key id_or_zero body \<noteq> []" using assms(2) by (metis length_0_conv length_sort)
  then show ?thesis
    using assms(1,3,4) by (simp add: put_orders_by_number_part_000_def Let_def)
qed

lemma deleted_bad_run:
  "\<exists>resp. put_orders_by_number_part_000 sn (\<lambda>_ _. True) ''SQ-01-01-24-0001''
            [deleted_bad] store0
     = (Processed resp, (BEGIN store0)\<lparr>rows := [row10, row20]\<rparr>)"
proof -
  have v: "validationErrors sn (sort_key id_or_zero [deleted_bad]) = []"
    by (simp add: validationErrors_def validate_def deleted_bad_def is_deleted_def has_id_def)
  have t: "transaction_part_000 (\<lambda>_ _. True) ''SQ-01-01-24-0001'' (sort_key id_or_zero [deleted_bad])
             (rows store0) = (None, [row10, row20])"
    by (simp add: transaction_part_000_def deleted_bad_def is_deleted_def has_id_def id_or_zero_def
        row_preds row10_def row11_def row20_def Let_def store0_def)
  show ?thesis
    by (rule part_000_processed[OF nonblank_example _ v t]) simp
qed

lemma bool_line_valid: "\<not> invalid sn bool_line"
  by (simp add: invalid_def bool_line_def has_id_def is_deleted_def nan_in_numeric_field_def
      gst_out_of_range_def numericFields_def isNaN_def)

text \<open>
  Claim C7 as worded fails. A body that is not an array gets no validation error from
  either handler: the spread throws before the guards. The handler of
  \<^verbatim>\<open>firebase-connector.js\<close> makes no check of the fields: for a batch that sets the gst of
  line 10 to 150 it begins a transaction, succeeds and stores the value. The second
  handler validates only the descriptors not marked deleted: the deletion of line 11
  with the quantity \<^verbatim>\<open>"abc"\<close> is processed. And its check of a numeric field is \<^verbatim>\<open>isNaN\<close>,
  which converts: for line 10 with the quantity \<^verbatim>\<open>true\<close> it begins a transaction,
  whatever the conversion of strings and whatever the store then accepts.
\<close>

theorem malformed_rejected_counterexample:
  "\<forall>sn accepts.
     malformed ''SQ-01-01-24-0001'' NotArray
     \<and> put_orders_by_number_request accepts ''2024-01-01'' ''SQ-01-01-24-0001'' NotArray store0
           = (TypeError, store0)
     \<and> put_orders_by_number_part_000_request sn accepts ''SQ-01-01-24-0001'' NotArray store0
           = (TypeError, store0)
     \<and> put_orders_by_number_request accepts ''2024-01-01'' [] NotArray store0
           = (TypeError, store0)
     \<and> malformed ''SQ-01-01-24-0001'' (Array [gst_line])
     \<and> (\<exists>resp s'. put_orders_by_number_request (\<lambda>_ _. True) ''2024-01-01'' ''SQ-01-01-24-0001''
                      (Array [gst_line]) store0 = (Replied (Succeeded resp), s')
            \<and> transactions s' = 1 \<and> hd (rows s') ''gst'' = Some (JNum 150))
     \<and> malformed ''SQ-01-01-24-0001'' (Array [deleted_bad])
     \<and> (\<exists>resp s'. put_orders_by_number_part_000_request sn (\<lambda>_ _. True) ''SQ-01-01-24-0001''
                      (Array [deleted_bad]) store0 = (Replied (Processed resp), s')
            \<and> transactions s' = 1 \<and> length (rows s') = 2)
     \<and> malformed ''SQ-01-01-24-0001'' (Array [bool_line])
     \<and> transactions (snd (put_orders_by_number_part_000_request sn accepts ''SQ-01-01-24-0001''
                             (Array [bool_line]) store0)) = 1"
proof (intro allI)
  fix sn :: "string \<Rightarrow> int option" and accepts :: "string \<Rightarrow> jsval \<Rightarrow> bool"
  have m0: "malformed ''SQ-01-01-24-0001'' NotArray"
    by (simp add: malformed_def)
  have m1: "malformed ''SQ-01-01-24-0001'' (Array [gst_line])"
    by (simp add: malformed_def percentage_out_of_range_def gst_line_def)
  have m2: "malformed ''SQ-01-01-24-0001'' (Array [deleted_bad])"
    by (simp add: malformed_def non_numeric_def numericFields_def deleted_bad_def is_number_def)
  have m3: "malformed ''SQ-01-01-24-0001'' (Array [bool_line])"
    by (simp add: malformed_def non_numeric_def numericFields_def bool_line_def is_number_def)
  have t: "put_orders_by_number_request accepts ''2024-01-01'' ''SQ-01-01-24-0001'' NotArray store0
           = (TypeError, store0)"
    "put_orders_by_number_part_000_request sn accepts ''SQ-01-01-24-0001'' NotArray store0
           = (TypeError, store0)"
    "put_orders_by_number_request accepts ''2024-01-01'' [] NotArray store0 = (TypeError, store0)"
    by (simp_all add: put_orders_by_number_request_def put_orders_by_number_part_000_request_def)
  have g: "\<exists>resp s'. put_orders_by_number_request (\<lambda>_ _. True) ''2024-01-01'' ''SQ-01-01-24-0001''
                      (Array [gst_line]) store0 = (Replied (Succeeded resp), s')
            \<and> transactions s' = 1 \<and> hd (rows s') ''gst'' = Some (JNum 150)"
    using gst_line_stored by (auto simp: put_orders_by_number_request_def)
  have d: "\<exists>resp s'. put_orders_by_number_part_000_request sn (\<lambda>_ _. True) ''SQ-01-01-24-0001''
                      (Array [deleted_bad]) store0 = (Replied (Processed resp), s')
            \<and> transactions s' = 1 \<and> length (rows s') = 2"
    using deleted_bad_run[of sn]
    by (auto simp: put_orders_by_number_part_000_request_def BEGIN_def store0_def)
  have "\<not> (''SQ-01-01-24-0001'' = [] \<or> trim ''SQ-01-01-24-0001'' = [] \<or> [bool_line] = []
           \<or> list_ex (invalid sn) [bool_line])"
    using nonblank_example bool_line_valid[of sn] by simp
  then have "transactions (snd (put_orders_by_number_part_000 sn accepts ''SQ-01-01-24-0001''
                                  [bool_line] store0)) = Suc (transactions store0)"
    by (rule part_000_begins(1))
  then have b: "transactions (snd (put_orders_by_number_part_000_request sn accepts ''SQ-01-01-24-0001''
                             (Array [bool_line]) store0)) = 1"
    by (simp add: put_orders_by_number_part_000_request_def store0_def case_prod_beta)
  show "malformed ''SQ-01-01-24-0001'' NotArray
     \<and> put_orders_by_number_request accepts ''2024-01-01'' ''SQ-01-01-24-0001'' NotArray store0
           = (TypeError, store0)
     \<and> put_orders_by_number_part_000_request sn accepts ''SQ-01-01-24-0001'' NotArray store0
           = (TypeError, store0)
     \<and> put_orders_by_number_request accepts ''2024-01-01'' [] NotArray store0
           = (TypeError, store0)
     \<and> malformed ''SQ-01-01-24-0001'' (Array [gst_line])
     \<and> (\<exists>resp s'. put_orders_by_number_request (\<lambda>_ _. True) ''2024-01-01'' ''SQ-01-01-24-0001''
                      (Array [gst_line]) store0 = (Replied (Succeeded resp), s')
            \<and> transactions s' = 1 \<and> hd (rows s') ''gst'' = Some (JNum 150))
     \<and> malformed ''SQ-01-01-24-0001'' (Array [deleted_bad])
     \<and> (\<exists>resp s'. put_orders_by_number_part_000_request sn (\<lambda>_ _. True) ''SQ-01-01-24-0001''
                      (Array [deleted_bad]) store0 = (Replied (Processed resp), s')
            \<and> transactions s' = 1 \<and> length (rows s') = 2)
     \<and> malformed ''SQ-01-01-24-0001'' (Array [bool_line])
     \<and> transactions (snd (put_orders_by_number_part_000_request sn accepts ''SQ-01-01-24-0001''
                             (Array [bool_line]) store0)) = 1"
    using m0 m1 m2 m3 t g d b by (intro conjI)
qed

end
